theory Spec2Isabelle
  imports Complex_Main
begin

section \<open>JavaScript values\<close>

text \<open>
  A JavaScript Number is modelled by its exact value: \<open>NaN\<close> or a real. Rounding of
  doubles, the infinities and the sign of zero are left out; time values of Dates are
  Numbers (\<open>NaN\<close> for an Invalid Date).
\<close>

datatype number = NaN | Num real

text \<open>
  The values a JSON body or a parsed model reply can hold. \<open>JObject s\<close> is an array or
  a plain object whose conversion to a primitive gives the string \<open>s\<close>.
\<close>

datatype js_value =
    JUndefined
  | JNull
  | JBool bool
  | JNumber number
  | JString string
  | JObject string

fun truthyNum :: "number \<Rightarrow> bool" where
  "truthyNum NaN = False"
| "truthyNum (Num r) = (r \<noteq> 0)"

fun truthy :: "js_value \<Rightarrow> bool" where
  "truthy JUndefined = False"
| "truthy JNull = False"
| "truthy (JBool b) = b"
| "truthy (JNumber n) = truthyNum n"
| "truthy (JString s) = (s \<noteq> [])"
| "truthy (JObject s) = True"

text \<open>Arithmetic on Numbers: any \<open>NaN\<close> operand gives \<open>NaN\<close>.\<close>

fun num_sub :: "number \<Rightarrow> number \<Rightarrow> number" where
  "num_sub (Num a) (Num b) = Num (a - b)"
| "num_sub _ _ = NaN"

fun num_mul :: "number \<Rightarrow> number \<Rightarrow> number" where
  "num_mul (Num a) (Num b) = Num (a * b)"
| "num_mul _ _ = NaN"

text \<open>Division by a non-zero constant, the only division the handlers perform.\<close>

fun num_div :: "number \<Rightarrow> real \<Rightarrow> number" where
  "num_div (Num a) d = Num (a / d)"
| "num_div NaN d = NaN"

fun Math_ceil :: "number \<Rightarrow> number" where
  "Math_ceil (Num a) = Num (of_int \<lceil>a\<rceil>)"
| "Math_ceil NaN = NaN"

text \<open>\<open>a || b\<close> on values and on strings.\<close>

definition js_or :: "js_value \<Rightarrow> js_value \<Rightarrow> js_value" where
  "js_or a b = (if truthy a then a else b)"

definition str_or :: "string \<Rightarrow> string \<Rightarrow> string" where
  "str_or a b = (if a \<noteq> [] then a else b)"

text \<open>The truth value of a string that may be absent, as in \<open>!userId\<close>.\<close>

definition truthyStr :: "string option \<Rightarrow> bool" where
  "truthyStr v = (case v of None \<Rightarrow> False | Some s \<Rightarrow> s \<noteq> [])"

text \<open>\<open>v || d\<close> for a string \<open>v\<close> that may be absent, as \<open>process.env.CURRENCY || d\<close>.\<close>

definition opt_or :: "string option \<Rightarrow> string \<Rightarrow> string" where
  "opt_or v d = (case v of None \<Rightarrow> d | Some s \<Rightarrow> str_or s d)"

subsection \<open>Strings\<close>

definition startsWith :: "string \<Rightarrow> string \<Rightarrow> bool" where
  "startsWith s p = (take (length p) s = p)"

fun includes_str :: "string \<Rightarrow> string \<Rightarrow> bool" where
  "includes_str [] p = (p = [])"
| "includes_str (c # cs) p = (startsWith (c # cs) p \<or> includes_str cs p)"

text \<open>
  \<open>String.prototype.trim\<close> on the ASCII white space (tab, line feed, vertical tab, form
  feed, carriage return, space); strings are byte strings here.
\<close>

definition isSpace :: "char \<Rightarrow> bool" where
  "isSpace c = (c \<in> {CHR 0x09, CHR 0x0A, CHR 0x0B, CHR 0x0C, CHR 0x0D, CHR 0x20})"

definition trim :: "string \<Rightarrow> string" where
  "trim s = rev (dropWhile isSpace (rev (dropWhile isSpace s)))"

fun join :: "string \<Rightarrow> string list \<Rightarrow> string" where
  "join sep [] = []"
| "join sep [x] = x"
| "join sep (x # y # ys) = x @ sep @ join sep (y # ys)"

text \<open>The rupee sign of the templates, as its three UTF-8 bytes.\<close>

definition rupee :: string where
  "rupee = [CHR 0xE2, CHR 0x82, CHR 0xB9]"

subsection \<open>Errors\<close>

text \<open>What the handlers read of a thrown value: \<open>error.message\<close> and \<open>error.status\<close>.\<close>

record js_error =
  e_message :: "string option"
  e_status :: "int option"

definition Error :: "string \<Rightarrow> js_error" where
  "Error m = \<lparr>e_message = Some m, e_status = None\<rparr>"

text \<open>The TypeError of reading property \<open>p\<close> of \<open>null\<close> or \<open>undefined\<close>.\<close>

definition TypeError :: "string \<Rightarrow> string \<Rightarrow> js_error" where
  "TypeError v p = Error (''Cannot read properties of '' @ v @ '' (reading ''
                            @ [CHR 0x27] @ p @ [CHR 0x27] @ '')'')"

section \<open>Entities\<close>

record hotel =
  h_id :: string
  h_name :: string
  h_address :: string
  h_city :: string

text \<open>A room as \<open>populate("hotel")\<close> returns it: the hotel is \<open>null\<close> when it is gone.\<close>

record room =
  r_id :: string
  r_hotel :: "hotel option"
  r_roomType :: string
  r_pricePerNight :: real
  r_amenities :: "string list"
  r_images :: "string list"

record user =
  u_id :: string
  u_email :: string
  u_username :: string
  u_image :: string
  u_role :: string
  u_recentSearchedCities :: "string list"

text \<open>A Booking document: the fields \<open>createBookingViaAI\<close> passes to \<open>Booking.create\<close>, and its id.\<close>

record booking =
  b_id :: string
  b_user :: string
  b_room :: js_value
  b_hotel :: string
  b_guests :: number
  b_checkInDate :: js_value
  b_checkOutDate :: js_value
  b_totalPrice :: number

record db =
  users :: "string \<rightharpoonup> user"
  rooms :: "string \<rightharpoonup> room"
  bookings :: "booking list"

text \<open>\<open>Room.findById(id)\<close>: the room of that id, \<open>null\<close> when there is none.\<close>

fun Room_findById :: "db \<Rightarrow> js_value \<Rightarrow> room option" where
  "Room_findById d (JString s) = rooms d s"
| "Room_findById d _ = None"

record mail =
  m_from :: "string option"
  m_to :: string
  m_subject :: string
  m_html :: string

text \<open>The query object \<open>searchHotels\<close> builds for \<open>Room.find\<close>.\<close>

record search_query =
  q_isAvailable :: bool
  q_hotel_in :: "string list option"
  q_roomType :: "js_value option"
  q_price_gte :: "js_value option"
  q_price_lte :: "js_value option"
  q_amenities_in :: "string list option"

section \<open>The parsed reply of the language model\<close>

record price_range =
  p_min :: js_value
  p_max :: js_value

record extracted_data =
  x_city :: js_value
  x_roomType :: js_value
  x_checkInDate :: js_value
  x_checkOutDate :: js_value
  x_roomId :: js_value
  x_guests :: js_value
  x_priceRange :: "price_range option"
  x_amenities :: "string list option"

text \<open>
  The object \<open>JSON.parse\<close> returns. A field the model left out is \<open>None\<close>
  (\<open>JUndefined\<close> for the intent).
\<close>

record ai_analysis =
  a_intent :: js_value
  a_extractedData :: "extracted_data option"
  a_needsClarification :: "string list option"
  a_response :: "string option"

text \<open>What \<open>JSON.parse\<close> gives: a syntax error, \<open>null\<close>, or another value read as an object.\<close>

datatype parse_result = SyntaxError | ParsedNull | Parsed ai_analysis

section \<open>Effects and the outside world\<close>

text \<open>
  Every call a handler makes to a collaborator (the language model, the database, the
  mailer, the timer) is logged, in order; the availability check and the mailer are logged
  with what they returned.
\<close>

datatype effect =
    GenerateContent string
  | Sleep nat
  | User_findById string
  | Room_findById_call js_value
  | Hotel_find js_value
  | Room_find search_query
  | CheckAvailability js_value number number "js_error + bool"
  | Booking_create booking
  | SendMail mail "js_error option"
  | User_findOneAndUpdate string
  | User_findByIdAndUpdate string
  | User_findByIdAndDelete string

text \<open>
  A call of \<open>generateContent\<close> rejects, or resolves to a result whose \<open>response.text()\<close>
  throws or gives the text.
\<close>

datatype llm_outcome = Rejects js_error | Resolves "js_error + string"

text \<open>
  The collaborators of the handlers, none of them code of the controllers: the process
  environment, built-ins of the language (\<open>Date\<close>, \<open>JSON.parse\<close>, conversions between
  Numbers and strings), the language-model client, the query engine of the database and
  its faults, the mailer, and \<open>checkAvailability\<close> of the booking controller.
  \<open>generateContent env n m p\<close> is the outcome of the \<open>n\<close>-th call of the request, on
  model \<open>m\<close> with prompt \<open>p\<close>.
\<close>

record env =
  GEMINI_API_KEY :: "string option"
  GEMINI_MODEL_NAME :: "string option"
  SENDER_EMAIL :: "string option"
  CURRENCY :: "string option"
  stringToNumber :: "string \<Rightarrow> number"
  numberToString :: "number \<Rightarrow> string"
  newDate :: "js_value \<Rightarrow> number"
  toDateString :: "number \<Rightarrow> string"
  JSON_parse :: "string \<Rightarrow> parse_result"
  generateContent :: "nat \<Rightarrow> string \<Rightarrow> string \<Rightarrow> llm_outcome"
  hotelFind :: "db \<Rightarrow> js_value \<Rightarrow> js_error + hotel list"
  roomFind :: "db \<Rightarrow> search_query \<Rightarrow> js_error + room list"
  dbFault :: "effect \<Rightarrow> js_error option"
  checkAvailability :: "db \<Rightarrow> js_value \<Rightarrow> number \<Rightarrow> number \<Rightarrow> js_error + bool"
  sendMail :: "mail \<Rightarrow> js_error option"
  newObjectId :: "db \<Rightarrow> string"

text \<open>\<open>ToNumber\<close>, the unary plus.\<close>

fun toNumber :: "env \<Rightarrow> js_value \<Rightarrow> number" where
  "toNumber env JUndefined = NaN"
| "toNumber env JNull = Num 0"
| "toNumber env (JBool b) = Num (if b then 1 else 0)"
| "toNumber env (JNumber n) = n"
| "toNumber env (JString s) = stringToNumber env s"
| "toNumber env (JObject s) = stringToNumber env s"

text \<open>\<open>ToString\<close>, as template literals apply it.\<close>

fun toString :: "env \<Rightarrow> js_value \<Rightarrow> string" where
  "toString env JUndefined = ''undefined''"
| "toString env JNull = ''null''"
| "toString env (JBool b) = (if b then ''true'' else ''false'')"
| "toString env (JNumber n) = numberToString env n"
| "toString env (JString s) = s"
| "toString env (JObject s) = s"

text \<open>
  The nights of a stay, as the three handlers' branches compute them:
  \<open>Math.ceil((checkOut - checkIn) / (1000 * 3600 * 24))\<close>.
\<close>

definition nightsOf :: "number \<Rightarrow> number \<Rightarrow> number" where
  "nightsOf checkIn checkOut = Math_ceil (num_div (num_sub checkOut checkIn) (1000 * 3600 * 24))"

section \<open>createBookingViaAI\<close>

record response =
  success :: bool
  message :: "string option"

record booking_details =
  d_id :: string
  d_bookingId :: string
  d_hotelName :: string
  d_checkInDate :: string
  d_checkOutDate :: string
  d_totalPrice :: number
  d_nights :: number

record book_response = response +
  booking :: "booking_details option"

text \<open>What a handler reads of \<open>req.auth\<close>: \<open>req.auth?.userId\<close>.\<close>

record auth =
  userId :: "string option"

record book_request = auth +
  roomId :: js_value
  checkInDate :: js_value
  checkOutDate :: js_value
  guests :: js_value

definition book_failure :: "string \<Rightarrow> book_response" where
  "book_failure m = \<lparr>success = False, message = Some m, booking = None\<rparr>"

text \<open>The confirmation mail of a booking.\<close>

definition mailOptions ::
  "env \<Rightarrow> user \<Rightarrow> booking \<Rightarrow> hotel \<Rightarrow> number \<Rightarrow> number \<Rightarrow> number \<Rightarrow> mail" where
  "mailOptions env usr bk htl checkIn checkOut totalPrice =
     \<lparr>m_from = SENDER_EMAIL env,
      m_to = u_email usr,
      m_subject = ''Hotel Booking Details'',
      m_html =
        ''\<newline>          <h2>Your Booking Details</h2>''
        @ ''\<newline>          <p>Dear '' @ str_or (u_username usr) (u_email usr) @ '',</p>''
        @ ''\<newline>          <p>Thank you for your booking! Here are your details:</p>''
        @ ''\<newline>          <ul>''
        @ ''\<newline>            <li><strong>Booking ID:</strong> '' @ b_id bk @ ''</li>''
        @ ''\<newline>            <li><strong>Hotel Name:</strong> '' @ h_name htl @ ''</li>''
        @ ''\<newline>            <li><strong>Location:</strong> '' @ h_address htl @ ''</li>''
        @ ''\<newline>            <li><strong>Check-in:</strong> '' @ toDateString env checkIn @ ''</li>''
        @ ''\<newline>            <li><strong>Check-out:</strong> '' @ toDateString env checkOut @ ''</li>''
        @ ''\<newline>            <li><strong>Booking Amount:</strong> '' @ opt_or (CURRENCY env) rupee
            @ '' '' @ numberToString env totalPrice @ ''</li>''
        @ ''\<newline>          </ul>''
        @ ''\<newline>          <p>We look forward to welcoming you!</p>''
        @ ''\<newline>          <p>If you need to make any changes, feel free to contact us.</p>''
        @ ''\<newline>        ''\<rparr>"

text \<open>\<open>+guests || 1\<close>.\<close>

definition guestsOf :: "env \<Rightarrow> js_value \<Rightarrow> number" where
  "guestsOf env g = (if truthyNum (toNumber env g) then toNumber env g else Num 1)"

text \<open>
  The body of the \<open>try\<close> block: \<open>Inl\<close> is a thrown error, \<open>Inr\<close> the response sent. The
  result carries the database after the request and the log of the calls made.
\<close>

definition createBookingViaAI_try ::
  "env \<Rightarrow> db \<Rightarrow> book_request \<Rightarrow> (js_error + book_response) \<times> db \<times> effect list" where
  "createBookingViaAI_try env d req =
    (case userId req of
       None \<Rightarrow> (Inr (book_failure ''You need to be logged in to make a booking''), d, [])
     | Some uid \<Rightarrow>
       if uid = [] then (Inr (book_failure ''You need to be logged in to make a booking''), d, [])
       else
       (case dbFault env (User_findById uid) of
          Some e \<Rightarrow> (Inl e, d, [User_findById uid])
        | None \<Rightarrow>
          (case users d uid of
             None \<Rightarrow> (Inr (book_failure ''User not found''), d, [User_findById uid])
           | Some usr \<Rightarrow>
             let ci = newDate env (checkInDate req);
                 co = newDate env (checkOutDate req);
                 isAvailable = checkAvailability env d (roomId req) ci co;
                 t1 = [User_findById uid, CheckAvailability (roomId req) ci co isAvailable]
             in
             (case isAvailable of
                Inl e \<Rightarrow> (Inl e, d, t1)
              | Inr False \<Rightarrow>
                  (Inr (book_failure ''Room is not available for the selected dates''), d, t1)
              | Inr True \<Rightarrow>
                let t2 = t1 @ [Room_findById_call (roomId req)] in
                (case dbFault env (Room_findById_call (roomId req)) of
                   Some e \<Rightarrow> (Inl e, d, t2)
                 | None \<Rightarrow>
                   (case Room_findById d (roomId req) of
                      None \<Rightarrow> (Inr (book_failure ''Room not found''), d, t2)
                    | Some roomData \<Rightarrow>
                      let nights = nightsOf ci co;
                          totalPrice = num_mul (Num (r_pricePerNight roomData)) nights
                      in
                      (case r_hotel roomData of
                         None \<Rightarrow> (Inl (TypeError ''null'' ''_id''), d, t2)
                       | Some htl \<Rightarrow>
                         let bk = \<lparr>b_id = newObjectId env d,
                                   b_user = uid,
                                   b_room = roomId req,
                                   b_hotel = h_id htl,
                                   b_guests = guestsOf env (guests req),
                                   b_checkInDate = checkInDate req,
                                   b_checkOutDate = checkOutDate req,
                                   b_totalPrice = totalPrice\<rparr>
                         in
                         (case dbFault env (Booking_create bk) of
                            Some e \<Rightarrow> (Inl e, d, t2 @ [Booking_create bk])
                          | None \<Rightarrow>
                            let d' = d\<lparr>bookings := bookings d @ [bk]\<rparr>;
                                ml = mailOptions env usr bk htl ci co totalPrice
                            in
                            (Inr \<lparr>success = True,
                                  message = Some ''Booking created successfully!'',
                                  booking = Some
                                    \<lparr>d_id = b_id bk,
                                     d_bookingId = b_id bk,
                                     d_hotelName = h_name htl,
                                     d_checkInDate = toDateString env ci,
                                     d_checkOutDate = toDateString env co,
                                     d_totalPrice = totalPrice,
                                     d_nights = nights\<rparr>\<rparr>,
                             d',
                             t2 @ [Booking_create bk, SendMail ml (sendMail env ml)])))))))))"

text \<open>The handler: what the \<open>try\<close> block sent, or the response of the \<open>catch\<close> block.\<close>

definition createBookingViaAI ::
  "env \<Rightarrow> db \<Rightarrow> book_request \<Rightarrow> book_response \<times> db \<times> effect list" where
  "createBookingViaAI env d req =
    (case createBookingViaAI_try env d req of
       (Inl e, d', t) \<Rightarrow> (book_failure ''Failed to create booking. Please try again.'', d', t)
     | (Inr r, d', t) \<Rightarrow> (r, d', t))"

section \<open>chatWithAI\<close>

subsection \<open>searchHotels and formatRoomsForAI\<close>

text \<open>
  \<open>searchHotels\<close> builds the query from the extracted data and asks the database; any
  error inside it (also the destructuring of an absent query) is caught and gives no rooms.
  \<open>hotelFind\<close> and \<open>roomFind\<close> stand for the construction of the regular expressions
  together with the query, so an expression that does not compile is an error of theirs,
  and the log has the entry of the query also then.
\<close>

definition priceQuery :: "price_range option \<Rightarrow> js_value option \<times> js_value option" where
  "priceQuery pr =
     (case pr of
        None \<Rightarrow> (None, None)
      | Some r \<Rightarrow> (if truthy (p_min r) then Some (p_min r) else None,
                   if truthy (p_max r) then Some (p_max r) else None))"

definition searchHotels :: "env \<Rightarrow> db \<Rightarrow> extracted_data option \<Rightarrow> room list \<times> effect list" where
  "searchHotels env d query =
     (case query of
        None \<Rightarrow> ([], [])
      | Some q \<Rightarrow>
        let found = (if truthy (x_city q) then Some (hotelFind env d (x_city q)) else None);
            t1 = (if truthy (x_city q) then [Hotel_find (x_city q)] else [])
        in
        (case found of
           Some (Inl e) \<Rightarrow> ([], t1)
         | _ \<Rightarrow>
           let searchQuery =
                 \<lparr>q_isAvailable = True,
                  q_hotel_in = (case found of Some (Inr hotels) \<Rightarrow> Some (map h_id hotels) | _ \<Rightarrow> None),
                  q_roomType = (if truthy (x_roomType q) then Some (x_roomType q) else None),
                  q_price_gte = fst (priceQuery (x_priceRange q)),
                  q_price_lte = snd (priceQuery (x_priceRange q)),
                  q_amenities_in =
                    (case x_amenities q of
                       None \<Rightarrow> None
                     | Some am \<Rightarrow> if length am > 0 then Some am else None)\<rparr>
           in
           (case roomFind env d searchQuery of
              Inl e \<Rightarrow> ([], t1 @ [Room_find searchQuery])
            | Inr rs \<Rightarrow> (take 10 rs, t1 @ [Room_find searchQuery]))))"

text \<open>The lines of one room, \<open>index\<close> counting from 0; reading the name of a missing hotel throws.\<close>

fun formatRoomLines :: "env \<Rightarrow> nat \<Rightarrow> room list \<Rightarrow> js_error + string" where
  "formatRoomLines env index [] = Inr []"
| "formatRoomLines env index (rm # rs) =
     (case r_hotel rm of
        None \<Rightarrow> Inl (TypeError ''null'' ''name'')
      | Some htl \<Rightarrow>
        (case formatRoomLines env (index + 1) rs of
           Inl e \<Rightarrow> Inl e
         | Inr rest \<Rightarrow>
           Inr (numberToString env (Num (real (index + 1))) @ ''. **'' @ h_name htl @ ''**\<newline>''
                @ ''   - Location: '' @ h_address htl @ '', '' @ h_city htl @ ''\<newline>''
                @ ''   - Room Type: '' @ r_roomType rm @ ''\<newline>''
                @ ''   - Price: '' @ rupee @ numberToString env (Num (r_pricePerNight rm)) @ ''/night\<newline>''
                @ ''   - Amenities: '' @ join '', '' (r_amenities rm) @ ''\<newline>''
                @ ''   - Room ID: '' @ r_id rm @ ''\<newline>\<newline>''
                @ rest)))"

definition formatRoomsForAI :: "env \<Rightarrow> room list \<Rightarrow> js_error + string" where
  "formatRoomsForAI env rs =
     (if length rs = 0 then Inr ''No hotels or rooms found matching your criteria.''
      else
        (case formatRoomLines env 0 rs of
           Inl e \<Rightarrow> Inl e
         | Inr ls \<Rightarrow>
           Inr (''I found '' @ numberToString env (Num (real (length rs))) @ '' room(s) for you:\<newline>\<newline>''
                @ ls
                @ ''Would you like to check availability or book any of these rooms?'')))"

subsection \<open>Action data and responses\<close>

record room_summary =
  s_id :: string
  s_hotelName :: string
  s_address :: string
  s_city :: string
  s_roomType :: string
  s_pricePerNight :: real
  s_amenities :: "string list"
  s_images :: "string list"

record availability =
  av_roomId :: string
  av_hotelName :: string
  av_checkInDate :: js_value
  av_checkOutDate :: js_value
  av_totalPrice :: number
  av_nights :: number

record confirmation =
  bc_roomId :: string
  bc_hotelName :: string
  bc_checkInDate :: js_value
  bc_checkOutDate :: js_value
  bc_guests :: js_value
  bc_totalPrice :: number

text \<open>
  The payload of a reply, by its \<open>type\<close> tag; \<open>availability_check\<close> carries the details
  when \<open>isAvailable\<close> is true and nothing else when it is false.
\<close>

datatype action_data =
    search_results "room_summary list"
  | availability_check "availability option"
  | booking_confirmation confirmation

record chat_response = response +
  actionData :: "action_data option"
  intent :: js_value

record chat_msg =
  role :: string
  content :: string

record chat_request = auth +
  body_message :: "string option"
  conversationHistory :: "chat_msg list"

definition chat_failure :: "string \<Rightarrow> chat_response" where
  "chat_failure m = \<lparr>success = False, message = Some m, actionData = None, intent = JUndefined\<rparr>"

fun roomSummaries :: "room list \<Rightarrow> js_error + room_summary list" where
  "roomSummaries [] = Inr []"
| "roomSummaries (rm # rs) =
     (case r_hotel rm of
        None \<Rightarrow> Inl (TypeError ''null'' ''name'')
      | Some htl \<Rightarrow>
        (case roomSummaries rs of
           Inl e \<Rightarrow> Inl e
         | Inr rest \<Rightarrow>
           Inr (\<lparr>s_id = r_id rm, s_hotelName = h_name htl, s_address = h_address htl,
                 s_city = h_city htl, s_roomType = r_roomType rm,
                 s_pricePerNight = r_pricePerNight rm, s_amenities = r_amenities rm,
                 s_images = r_images rm\<rparr> # rest)))"

subsection \<open>The prompt\<close>

definition SYSTEM_PROMPT :: string where
  "SYSTEM_PROMPT =
     ''You are a helpful AI assistant for a hotel booking application. Your role is to help users:\<newline>''
     @ ''1. Search for hotels and rooms\<newline>''
     @ ''2. Check room availability for specific dates\<newline>''
     @ ''3. Book hotels/rooms\<newline>''
     @ ''4. Answer questions about hotels, rooms, and bookings\<newline>''
     @ ''\<newline>''
     @ ''When users ask about:\<newline>''
     @ ''- Searching hotels: Extract location/city, room type, price range, amenities\<newline>''
     @ ''- Checking availability: Extract room ID, check-in date, check-out date\<newline>''
     @ ''- Booking: Extract room ID, check-in date, check-out date, number of guests\<newline>''
     @ ''- General questions: Provide helpful information\<newline>''
     @ ''\<newline>''
     @ ''Always respond in a friendly, conversational manner. When you need specific information (like dates, room IDs, etc.), ask the user clearly.''"

definition replyFormat :: string where
  \<open>replyFormat =
     ''\<newline>''
     @ ''\<newline>''
     @ ''You are an AI assistant that helps users with hotel bookings. Analyze the user's message and determine their intent. Respond with a JSON object containing:\<newline>''
     @ ''{\<newline>''
     @ ''  "intent": "search" | "check_availability" | "book" | "question" | "greeting",\<newline>''
     @ ''  "extractedData": {\<newline>''
     @ ''    "city": "string or null",\<newline>''
     @ ''    "roomType": "string or null",\<newline>''
     @ ''    "checkInDate": "string or null (YYYY-MM-DD format)",\<newline>''
     @ ''    "checkOutDate": "string or null (YYYY-MM-DD format)",\<newline>''
     @ ''    "roomId": "string or null",\<newline>''
     @ ''    "guests": "number or null",\<newline>''
     @ ''    "priceRange": {"min": number or null, "max": number or null},\<newline>''
     @ ''    "amenities": ["string"] or null\<newline>''
     @ ''  },\<newline>''
     @ ''  "needsClarification": ["list of missing information"],\<newline>''
     @ ''  "response": "A friendly natural language response to the user"\<newline>''
     @ ''}\<newline>''
     @ ''\<newline>''\<close>

text \<open>The last ten messages of the history, one per line.\<close>

definition conversationContext :: "chat_msg list \<Rightarrow> string" where
  "conversationContext h =
     join ''\<newline>''
       (map (\<lambda>msg. if role msg = ''user'' then ''User: '' @ content msg
                    else ''Assistant: '' @ content msg)
            (drop (length h - 10) h))"

definition promptOf :: "chat_msg list \<Rightarrow> string \<Rightarrow> string" where
  "promptOf h msg =
     SYSTEM_PROMPT @ replyFormat
     @ (if conversationContext h \<noteq> []
        then ''Previous conversation:\<newline>'' @ conversationContext h @ ''\<newline>\<newline>''
        else [])
     @ ''User message: '' @ msg
     @ ''\<newline>\<newline>Respond only with valid JSON, no additional text.''"

subsection \<open>The retry and fallback loop\<close>

definition fallbackModels :: "string list" where
  "fallbackModels = [''gemini-2.5-flash'', ''gemini-1.5-flash'', ''gemini-pro'']"

text \<open>\<open>error.message && error.message.includes(p)\<close>.\<close>

definition messageIncludes :: "js_error \<Rightarrow> string \<Rightarrow> bool" where
  "messageIncludes e p =
     (case e_message e of None \<Rightarrow> False | Some m \<Rightarrow> m \<noteq> [] \<and> includes_str m p)"

definition isModelNotFound :: "js_error \<Rightarrow> bool" where
  "isModelNotFound e = (messageIncludes e ''404'' \<and> messageIncludes e ''model'')"

definition isNetworkError :: "js_error \<Rightarrow> bool" where
  "isNetworkError e =
     (messageIncludes e ''fetch failed'' \<or> messageIncludes e ''ECONNREFUSED''
      \<or> messageIncludes e ''ENOTFOUND'')"

text \<open>
  The variables of the loop: the retries left, the last error, the index and the name of
  the current model, the number of calls of \<open>generateContent\<close> made, and the log of effects.
\<close>

record loop_state =
  retries :: nat
  lastError :: "js_error option"
  currentModelIndex :: nat
  modelName :: string
  calls :: nat
  effects :: "effect list"

text \<open>
  The \<open>while (retries > 0)\<close> loop with the check that follows it. \<open>Inr\<close> is the result of
  a call that resolved, \<open>Inl\<close> the error thrown; the final values of the variables are
  returned with it.
\<close>

function retryLoop ::
  "env \<Rightarrow> string \<Rightarrow> loop_state \<Rightarrow> (js_error + (js_error + string)) \<times> loop_state" where
  "retryLoop env prompt s =
     (if retries s > 0 then
        (let s1 = s\<lparr>calls := calls s + 1, effects := effects s @ [GenerateContent (modelName s)]\<rparr> in
         case generateContent env (calls s) (modelName s) prompt of
           Resolves result \<Rightarrow> (Inr result, s1)
         | Rejects error \<Rightarrow>
             if isModelNotFound error \<and> currentModelIndex s < length fallbackModels - 1 then
               retryLoop env prompt
                 (s1\<lparr>lastError := Some error,
                     currentModelIndex := currentModelIndex s + 1,
                     modelName := fallbackModels ! (currentModelIndex s + 1)\<rparr>)
             else if isNetworkError error \<and> retries s > 1 then
               retryLoop env prompt
                 (s1\<lparr>lastError := Some error,
                     retries := retries s - 1,
                     effects := effects s1 @ [Sleep 1000]\<rparr>)
             else (Inl error, s1\<lparr>lastError := Some error\<rparr>))
      else
        (case lastError s of
           Some e \<Rightarrow> (Inl e, s)
         | None \<Rightarrow> (Inl (Error ''Failed to get response from AI''), s)))"
  by pat_completeness auto
termination
  by (relation "measure (\<lambda>(env, prompt, s). retries s + (length fallbackModels - 1 - currentModelIndex s))")
     (auto simp: fallbackModels_def)

declare retryLoop.simps [simp del]

text \<open>\<open>fallbackModels.indexOf(modelName)\<close>, \<open>None\<close> for \<open>-1\<close>.\<close>

fun indexOf :: "string list \<Rightarrow> string \<Rightarrow> nat option" where
  "indexOf [] x = None"
| "indexOf (y # ys) x = (if y = x then Some 0 else map_option Suc (indexOf ys x))"

text \<open>The variables as \<open>chatWithAI\<close> sets them before the loop.\<close>

definition initialLoopState :: "env \<Rightarrow> loop_state" where
  "initialLoopState env =
     (let name = opt_or (GEMINI_MODEL_NAME env) ''gemini-2.5-flash'' in
      \<lparr>retries = 3,
       lastError = None,
       currentModelIndex = (case indexOf fallbackModels name of Some i \<Rightarrow> i | None \<Rightarrow> 0),
       modelName = name,
       calls = 0,
       effects = []\<rparr>)"

text \<open>The calls of \<open>generateContent\<close> and the waits in a log.\<close>

fun isGenerateContent :: "effect \<Rightarrow> bool" where
  "isGenerateContent (GenerateContent m) = True"
| "isGenerateContent _ = False"

fun isSleep :: "effect \<Rightarrow> bool" where
  "isSleep (Sleep ms) = True"
| "isSleep _ = False"

fun isBooking_create :: "effect \<Rightarrow> bool" where
  "isBooking_create (Booking_create b) = True"
| "isBooking_create _ = False"

subsection \<open>Reading the reply\<close>

text \<open>\<open>s.replace(/p\n?/g, "")\<close> for a literal \<open>p\<close>: every match of \<open>p\<close>, with the line feed after it, is removed.\<close>

definition dropLineFeed :: "string \<Rightarrow> string" where
  "dropLineFeed s = (case s of c # cs \<Rightarrow> if c = CHR 0x0A then cs else s | [] \<Rightarrow> [])"

function removeAll_str :: "string \<Rightarrow> string \<Rightarrow> string" where
  "removeAll_str p [] = []"
| "removeAll_str p (c # cs) =
     (if p \<noteq> [] \<and> startsWith (c # cs) p
      then removeAll_str p (dropLineFeed (drop (length p) (c # cs)))
      else c # removeAll_str p cs)"
  by pat_completeness auto
termination
proof (relation "measure (\<lambda>(p, s). length s)")
  show "wf (measure (\<lambda>(p, s). length s))" by simp
next
  fix p :: string and c cs
  assume "p \<noteq> [] \<and> startsWith (c # cs) p"
  then have "0 < length p" by simp
  then have "length (drop (length p) (c # cs)) < length (c # cs)"
    by simp
  moreover have "length (dropLineFeed u) \<le> length u" for u
    by (simp add: dropLineFeed_def split: list.splits)
  then have "length (dropLineFeed (drop (length p) (c # cs))) \<le> length (drop (length p) (c # cs))" .
  ultimately have "length (dropLineFeed (drop (length p) (c # cs))) < length (c # cs)"
    by (rule le_less_trans [rotated])
  then show "((p, dropLineFeed (drop (length p) (c # cs))), (p, c # cs)) \<in> measure (\<lambda>(p, s). length s)"
    by simp
next
  fix p :: string and c cs
  show "((p, cs), (p, c # cs)) \<in> measure (\<lambda>(p, s). length s)" by simp
qed

definition stripFences :: "string \<Rightarrow> string" where
  "stripFences text =
     (let jsonText = trim text in
      if startsWith jsonText ''```json'' then removeAll_str ''```'' (removeAll_str ''```json'' jsonText)
      else if startsWith jsonText ''```'' then removeAll_str ''```'' jsonText
      else jsonText)"

subsection \<open>The switch on the intent\<close>

definition greetingText :: string where
  "greetingText = ''Hello! I'm your AI assistant for hotel bookings. I can help you:\<newline>- Search for hotels and rooms\<newline>- Check room availability\<newline>- Make bookings\<newline>\<newline>How can I assist you today?''"

definition availableText :: "env \<Rightarrow> room \<Rightarrow> hotel \<Rightarrow> number \<Rightarrow> number \<Rightarrow> number \<Rightarrow> number \<Rightarrow> string" where
  "availableText env rm htl checkIn checkOut nights totalPrice =
     ''Great news! The room is available for those dates.\<newline>\<newline>''
     @ ''**'' @ h_name htl @ ''** - '' @ r_roomType rm @ ''\<newline>''
     @ ''Check-in: '' @ toDateString env checkIn @ ''\<newline>''
     @ ''Check-out: '' @ toDateString env checkOut @ ''\<newline>''
     @ ''Nights: '' @ numberToString env nights @ ''\<newline>''
     @ ''Total Price: '' @ rupee @ numberToString env totalPrice @ ''\<newline>\<newline>''
     @ ''Would you like to proceed with the booking?''"

definition unavailableText :: string where
  "unavailableText = ''I'm sorry, but this room is not available for the selected dates. Would you like me to search for alternative rooms?''"

definition loginText :: string where
  "loginText = ''You need to be logged in to make a booking. Please log in first.''"

definition summaryText :: "env \<Rightarrow> room \<Rightarrow> hotel \<Rightarrow> number \<Rightarrow> number \<Rightarrow> js_value \<Rightarrow> number \<Rightarrow> string" where
  "summaryText env rm htl checkIn checkOut gs totalPrice =
     ''Perfect! I can help you book this room.\<newline>\<newline>''
     @ ''**Booking Summary:**\<newline>''
     @ ''Hotel: '' @ h_name htl @ ''\<newline>''
     @ ''Room Type: '' @ r_roomType rm @ ''\<newline>''
     @ ''Check-in: '' @ toDateString env checkIn @ ''\<newline>''
     @ ''Check-out: '' @ toDateString env checkOut @ ''\<newline>''
     @ ''Guests: '' @ toString env (js_or gs (JNumber (Num 1))) @ ''\<newline>''
     @ ''Total Price: '' @ rupee @ numberToString env totalPrice @ ''\<newline>\<newline>''
     @ ''Should I proceed with the booking?''"

text \<open>
  The \<open>switch (aiAnalysis.intent)\<close> statement: from the reply, the values of \<open>aiResponse\<close>
  and \<open>actionData\<close> after it (they start as \<open>aiAnalysis.response\<close> and \<open>null\<close>), or the
  error thrown in it, and the calls made.
\<close>

definition handleIntent ::
  "env \<Rightarrow> db \<Rightarrow> string option \<Rightarrow> ai_analysis
     \<Rightarrow> (js_error + (string option \<times> action_data option)) \<times> effect list" where
  "handleIntent env d uid a =
    (if a_intent a = JString ''search'' then
       (case a_needsClarification a of
          None \<Rightarrow> (Inl (TypeError ''undefined'' ''length''), [])
        | Some nc \<Rightarrow>
          if length nc = 0 then
            (case searchHotels env d (a_extractedData a) of
               (rs, t) \<Rightarrow>
                 (case formatRoomsForAI env rs of
                    Inl e \<Rightarrow> (Inl e, t)
                  | Inr txt \<Rightarrow>
                    (case roomSummaries rs of
                       Inl e \<Rightarrow> (Inl e, t)
                     | Inr summaries \<Rightarrow> (Inr (Some txt, Some (search_results summaries)), t))))
          else (Inr (a_response a, None), []))
     else if a_intent a = JString ''check_availability'' then
       (case a_extractedData a of
          None \<Rightarrow> (Inl (TypeError ''undefined'' ''roomId''), [])
        | Some x \<Rightarrow>
          if truthy (x_roomId x) \<and> truthy (x_checkInDate x) \<and> truthy (x_checkOutDate x) then
            (let checkIn = newDate env (x_checkInDate x);
                 checkOut = newDate env (x_checkOutDate x);
                 isAvailable = checkAvailability env d (x_roomId x) checkIn checkOut;
                 t1 = [CheckAvailability (x_roomId x) checkIn checkOut isAvailable]
             in
             case isAvailable of
               Inl e \<Rightarrow> (Inl e, t1)
             | Inr False \<Rightarrow> (Inr (Some unavailableText, Some (availability_check None)), t1)
             | Inr True \<Rightarrow>
               (let t2 = t1 @ [Room_findById_call (x_roomId x)] in
                case dbFault env (Room_findById_call (x_roomId x)) of
                  Some e \<Rightarrow> (Inl e, t2)
                | None \<Rightarrow>
                  (case Room_findById d (x_roomId x) of
                     None \<Rightarrow> (Inl (TypeError ''null'' ''pricePerNight''), t2)
                   | Some rm \<Rightarrow>
                     (let nights = nightsOf checkIn checkOut;
                          totalPrice = num_mul (Num (r_pricePerNight rm)) nights
                      in
                      case r_hotel rm of
                        None \<Rightarrow> (Inl (TypeError ''null'' ''name''), t2)
                      | Some htl \<Rightarrow>
                        (Inr (Some (availableText env rm htl checkIn checkOut nights totalPrice),
                              Some (availability_check (Some
                                \<lparr>av_roomId = r_id rm,
                                 av_hotelName = h_name htl,
                                 av_checkInDate = x_checkInDate x,
                                 av_checkOutDate = x_checkOutDate x,
                                 av_totalPrice = totalPrice,
                                 av_nights = nights\<rparr>))),
                         t2)))))
          else (Inr (a_response a, None), []))
     else if a_intent a = JString ''book'' then
       (if \<not> truthyStr uid then (Inr (Some loginText, None), [])
        else
          (case a_needsClarification a of
             None \<Rightarrow> (Inl (TypeError ''undefined'' ''length''), [])
           | Some nc \<Rightarrow>
             if length nc = 0 then
               (case a_extractedData a of
                  None \<Rightarrow> (Inl (TypeError ''undefined'' ''roomId''), [])
                | Some x \<Rightarrow>
                  (let t1 = [Room_findById_call (x_roomId x)] in
                   case dbFault env (Room_findById_call (x_roomId x)) of
                     Some e \<Rightarrow> (Inl e, t1)
                   | None \<Rightarrow>
                     (case Room_findById d (x_roomId x) of
                        None \<Rightarrow> (Inr (a_response a, None), t1)
                      | Some rm \<Rightarrow>
                        (let checkIn = newDate env (x_checkInDate x);
                             checkOut = newDate env (x_checkOutDate x);
                             nights = nightsOf checkIn checkOut;
                             totalPrice = num_mul (Num (r_pricePerNight rm)) nights
                         in
                         case r_hotel rm of
                           None \<Rightarrow> (Inl (TypeError ''null'' ''name''), t1)
                         | Some htl \<Rightarrow>
                           (Inr (Some (summaryText env rm htl checkIn checkOut (x_guests x) totalPrice),
                                 Some (booking_confirmation
                                   \<lparr>bc_roomId = r_id rm,
                                    bc_hotelName = h_name htl,
                                    bc_checkInDate = x_checkInDate x,
                                    bc_checkOutDate = x_checkOutDate x,
                                    bc_guests = js_or (x_guests x) (JNumber (Num 1)),
                                    bc_totalPrice = totalPrice\<rparr>)),
                            t1)))))
             else (Inr (a_response a, None), [])))
     else if a_intent a = JString ''greeting'' then (Inr (Some greetingText, None), [])
     else (Inr (a_response a, None), []))"

subsection \<open>The handler\<close>

text \<open>\<open>aiResponse += suffix\<close>: an \<open>aiResponse\<close> that is \<open>undefined\<close> is converted to a string.\<close>

definition appendTo :: "string option \<Rightarrow> string \<Rightarrow> string" where
  "appendTo aiResponse suffix =
     (case aiResponse of None \<Rightarrow> ''undefined'' @ suffix | Some r \<Rightarrow> r @ suffix)"

definition clarificationSuffix :: "string list \<Rightarrow> string" where
  "clarificationSuffix nc = ''\<newline>\<newline>I need a bit more information: '' @ join '', '' nc"

text \<open>The message after the check that follows the switch: the suffix is added when something needs clarification.\<close>

definition withClarification :: "string option \<Rightarrow> string list \<Rightarrow> string option" where
  "withClarification aiResponse nc =
     (if length nc > 0 then Some (appendTo aiResponse (clarificationSuffix nc)) else aiResponse)"

text \<open>
  What \<open>chatWithAI\<close> does with the parsed reply: the switch, the clarification suffix and
  the response; \<open>Inl\<close> is a thrown error.
\<close>

definition respond ::
  "env \<Rightarrow> db \<Rightarrow> string option \<Rightarrow> ai_analysis \<Rightarrow> (js_error + chat_response) \<times> effect list" where
  "respond env d uid aiAnalysis =
     (case handleIntent env d uid aiAnalysis of
        (Inl e, t) \<Rightarrow> (Inl e, t)
      | (Inr (aiResponse, action), t) \<Rightarrow>
        (case a_needsClarification aiAnalysis of
           None \<Rightarrow> (Inl (TypeError ''undefined'' ''length''), t)
         | Some nc \<Rightarrow>
           (Inr \<lparr>success = True,
                 message = withClarification aiResponse nc,
                 actionData = action,
                 intent = a_intent aiAnalysis\<rparr>,
            t)))"

text \<open>
  The body of the \<open>try\<close> block of \<open>chatWithAI\<close>: \<open>Inl\<close> is a thrown error, \<open>Inr\<close> the
  response sent; with it the database after the request and the log of the calls made.
\<close>

definition chatWithAI_try ::
  "env \<Rightarrow> db \<Rightarrow> chat_request \<Rightarrow> (js_error + chat_response) \<times> db \<times> effect list" where
  "chatWithAI_try env d req =
    (case body_message req of
       None \<Rightarrow> (Inr (chat_failure ''Message is required''), d, [])
     | Some msg \<Rightarrow>
       if msg = [] then (Inr (chat_failure ''Message is required''), d, [])
       else
         (case retryLoop env (promptOf (conversationHistory req) msg) (initialLoopState env) of
            (Inl e, s) \<Rightarrow> (Inl e, d, effects s)
          | (Inr (Inl e), s) \<Rightarrow> (Inl e, d, effects s)
          | (Inr (Inr text), s) \<Rightarrow>
            (case JSON_parse env (stripFences text) of
               SyntaxError \<Rightarrow>
                 (Inl (Error ''Failed to parse AI response. The AI returned invalid JSON. Please try again.''),
                  d, effects s)
             | ParsedNull \<Rightarrow> (Inl (TypeError ''null'' ''response''), d, effects s)
             | Parsed aiAnalysis \<Rightarrow>
               (case respond env d (userId req) aiAnalysis of
                  (r, t) \<Rightarrow> (r, d, effects s @ t)))))"

text \<open>The \<open>catch\<close> block: the response for a thrown error.\<close>

definition chatWithAI_catch :: "env \<Rightarrow> js_error \<Rightarrow> chat_response" where
  \<open>chatWithAI_catch env error =
    (if \<not> truthyStr (GEMINI_API_KEY env) then
       chat_failure ''AI service is not configured. Please set GEMINI_API_KEY in your environment variables.''
     else if isNetworkError error then
       chat_failure ''Unable to connect to AI service. Please check your internet connection and API key.''
     else if isModelNotFound error then
       chat_failure (''AI model not found. Please check if "''
                     @ opt_or (GEMINI_MODEL_NAME env) ''gemini-2.0-flash-exp''
                     @ ''" is a valid model name.'')
     else if e_status error = Some 401 \<or> e_status error = Some 403 then
       chat_failure ''AI service authentication failed. Please check your GEMINI_API_KEY.''
     else
       chat_failure ''I'm sorry, I encountered an error. Please try again or rephrase your question.'')\<close>

definition chatWithAI :: "env \<Rightarrow> db \<Rightarrow> chat_request \<Rightarrow> chat_response \<times> db \<times> effect list" where
  "chatWithAI env d req =
    (case chatWithAI_try env d req of
       (Inl e, d', t) \<Rightarrow> (chatWithAI_catch env e, d', t)
     | (Inr r, d', t) \<Rightarrow> (r, d', t))"

section \<open>clerkWebhooks\<close>

text \<open>
  The payload of a Clerk event: its \<open>type\<close> and its \<open>data\<close> object, of which the handler
  reads the id, the addresses (the \<open>email_address\<close> of each entry), the names and the image.
\<close>

record clerk_data =
  cd_id :: string
  cd_email_addresses :: "string option list option"
  cd_first_name :: "string option"
  cd_last_name :: "string option"
  cd_image_url :: "string option"

record webhook_request =
  svix_id :: "string option"
  svix_timestamp :: "string option"
  svix_signature :: "string option"
  body_data :: clerk_data
  body_type :: string

record hook_response = response +
  status :: nat

text \<open>\<open>data.email_addresses?.[0]?.email_address\<close>.\<close>

definition firstEmail :: "clerk_data \<Rightarrow> string option" where
  "firstEmail dt =
     (case cd_email_addresses dt of
        None \<Rightarrow> None
      | Some [] \<Rightarrow> None
      | Some (a # _) \<Rightarrow> a)"

definition userDataOf :: "clerk_data \<Rightarrow> user" where
  "userDataOf dt =
     \<lparr>u_id = cd_id dt,
      u_email = opt_or (firstEmail dt) ''unknown@example.com'',
      u_username = str_or (trim (opt_or (cd_first_name dt) [] @ '' '' @ opt_or (cd_last_name dt) []))
                     ''Unknown User'',
      u_image = opt_or (cd_image_url dt) ''https://example.com/default-avatar.png'',
      u_role = ''user'',
      u_recentSearchedCities = []\<rparr>"

definition hook_error :: "js_error \<Rightarrow> hook_response" where
  "hook_error e = \<lparr>success = False, message = e_message e, status = 500\<rparr>"

definition hook_received :: hook_response where
  "hook_received = \<lparr>success = True, message = Some ''Webhook received'', status = 200\<rparr>"

text \<open>
  The handler. \<open>verify\<close> is the signature check of the svix library (the construction of
  the \<open>Webhook\<close> and its \<open>verify\<close>): the error it throws, if any.
\<close>

definition clerkWebhooks ::
  "(webhook_request \<Rightarrow> js_error option) \<Rightarrow> env \<Rightarrow> db \<Rightarrow> webhook_request
     \<Rightarrow> hook_response \<times> db \<times> effect list" where
  "clerkWebhooks verify env d req =
    (case verify req of
       Some e \<Rightarrow> (hook_error e, d, [])
     | None \<Rightarrow>
       (let dt = body_data req; userData = userDataOf dt in
        if body_type req = ''user.created'' then
          (case dbFault env (User_findOneAndUpdate (cd_id dt)) of
             Some e \<Rightarrow> (hook_error e, d, [User_findOneAndUpdate (cd_id dt)])
           | None \<Rightarrow>
               (hook_received, d\<lparr>users := (users d)(cd_id dt \<mapsto> userData)\<rparr>,
                [User_findOneAndUpdate (cd_id dt)]))
        else if body_type req = ''user.updated'' then
          (case dbFault env (User_findByIdAndUpdate (cd_id dt)) of
             Some e \<Rightarrow> (hook_error e, d, [User_findByIdAndUpdate (cd_id dt)])
           | None \<Rightarrow>
               (hook_received,
                (case users d (cd_id dt) of
                   None \<Rightarrow> d
                 | Some _ \<Rightarrow> d\<lparr>users := (users d)(cd_id dt \<mapsto> userData)\<rparr>),
                [User_findByIdAndUpdate (cd_id dt)]))
        else if body_type req = ''user.deleted'' then
          (case dbFault env (User_findByIdAndDelete (cd_id dt)) of
             Some e \<Rightarrow> (hook_error e, d, [User_findByIdAndDelete (cd_id dt)])
           | None \<Rightarrow>
               (hook_received, d\<lparr>users := (users d)(cd_id dt := None)\<rparr>,
                [User_findByIdAndDelete (cd_id dt)]))
        else (hook_received, d, [])))"

section \<open>Availability, and sample data\<close>

text \<open>\<open>a <= b\<close> on Numbers: false when either is \<open>NaN\<close>.\<close>

fun num_le :: "number \<Rightarrow> number \<Rightarrow> bool" where
  "num_le (Num a) (Num b) = (a \<le> b)"
| "num_le _ _ = False"

text \<open>
  Modelled from the spec: \<open>checkAvailability\<close> of the booking controller, whose source is
  not among the files of the repository at hand. The spec gives it as a single
  range-overlap predicate (dates must not overlap for a given room): the room is
  available when no booking of that room has a date range that overlaps the requested
  one. \<open>dateOf\<close> reads a stored date as a time value. The handlers above take
  \<open>checkAvailability\<close> as a parameter of the environment; this instance serves the
  examples.
\<close>

definition checkAvailability_spec ::
  "(js_value \<Rightarrow> number) \<Rightarrow> db \<Rightarrow> js_value \<Rightarrow> number \<Rightarrow> number \<Rightarrow> js_error + bool" where
  "checkAvailability_spec dateOf d rid checkIn checkOut =
     Inr (filter (\<lambda>b. b_room b = rid
                      \<and> num_le (dateOf (b_checkInDate b)) checkOut
                      \<and> num_le checkIn (dateOf (b_checkOutDate b)))
                 (bookings d) = [])"

text \<open>The first days of 2025 (UTC), as \<open>new Date\<close> reads them; anything else is an Invalid Date.\<close>

definition newDate0 :: "js_value \<Rightarrow> number" where
  "newDate0 v =
     (if v = JString ''2025-01-01'' then Num 1735689600000
      else if v = JString ''2025-01-02'' then Num 1735776000000
      else if v = JString ''2025-01-03'' then Num 1735862400000
      else if v = JString ''2025-01-04'' then Num 1735948800000
      else NaN)"

definition hotel0 :: hotel where
  "hotel0 = \<lparr>h_id = ''h1'', h_name = ''Sea View'', h_address = ''1 Beach Road'', h_city = ''Goa''\<rparr>"

definition room0 :: room where
  "room0 = \<lparr>r_id = ''r1'', r_hotel = Some hotel0, r_roomType = ''Double Bed'',
             r_pricePerNight = 100, r_amenities = [''Free WiFi''], r_images = []\<rparr>"

definition user0 :: user where
  "user0 = \<lparr>u_id = ''u1'', u_email = ''guest@example.com'', u_username = ''Guest'',
             u_image = [], u_role = ''user'', u_recentSearchedCities = []\<rparr>"

definition db0 :: db where
  "db0 = \<lparr>users = [''u1'' \<mapsto> user0], rooms = [''r1'' \<mapsto> room0], bookings = []\<rparr>"

text \<open>A database in which room \<open>r1\<close> is booked from 1 to 3 January.\<close>

definition booked0 :: booking where
  "booked0 = \<lparr>b_id = ''b0'', b_user = ''u1'', b_room = JString ''r1'', b_hotel = ''h1'',
               b_guests = Num 2, b_checkInDate = JString ''2025-01-01'',
               b_checkOutDate = JString ''2025-01-03'', b_totalPrice = Num 200\<rparr>"

definition db1 :: db where
  "db1 = db0\<lparr>bookings := [booked0]\<rparr>"

text \<open>
  An environment: the model answers every call with the text \<open>{}\<close>, which parses to the
  reply \<open>a\<close>; the mailer always throws; the database has no fault.
\<close>

definition env0 :: "ai_analysis \<Rightarrow> env" where
  "env0 a =
     \<lparr>GEMINI_API_KEY = Some ''key'',
      GEMINI_MODEL_NAME = None,
      SENDER_EMAIL = Some ''noreply@example.com'',
      CURRENCY = None,
      stringToNumber = (\<lambda>s. if s = ''2'' then Num 2 else NaN),
      numberToString = (\<lambda>n. ''n''),
      newDate = newDate0,
      toDateString = (\<lambda>n. ''day''),
      JSON_parse = (\<lambda>s. Parsed a),
      generateContent = (\<lambda>n m p. Resolves (Inr ''{}'')),
      hotelFind = (\<lambda>d c. Inr [hotel0]),
      roomFind = (\<lambda>d q. Inr [room0]),
      dbFault = (\<lambda>c. None),
      checkAvailability = checkAvailability_spec newDate0,
      sendMail = (\<lambda>m. Some (Error ''connect ECONNREFUSED 127.0.0.1:587'')),
      newObjectId = (\<lambda>d. ''b1'')\<rparr>"

definition noData :: extracted_data where
  "noData = \<lparr>x_city = JNull, x_roomType = JNull, x_checkInDate = JNull, x_checkOutDate = JNull,
              x_roomId = JNull, x_guests = JNull, x_priceRange = None, x_amenities = None\<rparr>"

text \<open>A reply with the given intent, needing no clarification.\<close>

definition reply0 :: "string \<Rightarrow> extracted_data \<Rightarrow> ai_analysis" where
  "reply0 i x = \<lparr>a_intent = JString i, a_extractedData = Some x,
                  a_needsClarification = Some [], a_response = Some ''Happy to help.''\<rparr>"

definition stay0 :: extracted_data where
  "stay0 = noData\<lparr>x_roomId := JString ''r1'', x_checkInDate := JString ''2025-01-01'',
                   x_checkOutDate := JString ''2025-01-03''\<rparr>"

definition bookRequest0 :: book_request where
  "bookRequest0 = \<lparr>userId = Some ''u1'', roomId = JString ''r1'',
                    checkInDate = JString ''2025-01-01'', checkOutDate = JString ''2025-01-03'',
                    guests = JUndefined\<rparr>"

definition chatRequest0 :: chat_request where
  "chatRequest0 = \<lparr>userId = Some ''u1'', body_message = Some ''Is room r1 free?'',
                    conversationHistory = []\<rparr>"

definition booking0 :: booking where
  "booking0 = \<lparr>b_id = ''b1'', b_user = ''u1'', b_room = JString ''r1'', b_hotel = ''h1'',
                b_guests = Num 1, b_checkInDate = JString ''2025-01-01'',
                b_checkOutDate = JString ''2025-01-03'', b_totalPrice = Num 200\<rparr>"

text \<open>Environments in which every call of the model fails: model not found, network down, server error.\<close>

definition greeting0 :: ai_analysis where
  "greeting0 = reply0 ''greeting'' noData"

definition modelGone :: js_error where
  "modelGone = Error ''[404 Not Found] models/gemini is not found for API version v1beta''"

definition networkDown :: js_error where
  "networkDown = Error ''TypeError: fetch failed''"

definition serverError :: js_error where
  "serverError = \<lparr>e_message = Some ''[500 Internal Server Error]'', e_status = Some 500\<rparr>"

definition envFailing :: "js_error \<Rightarrow> env" where
  "envFailing e = (env0 greeting0)\<lparr>generateContent := (\<lambda>n m p. Rejects e)\<rparr>"

text \<open>A request for room \<open>r1\<close> from 2 to 4 January, and one without a message.\<close>

definition bookRequest1 :: book_request where
  "bookRequest1 = bookRequest0\<lparr>checkInDate := JString ''2025-01-02'',
                                checkOutDate := JString ''2025-01-04''\<rparr>"

definition chatRequest1 :: chat_request where
  "chatRequest1 = \<lparr>userId = None, body_message = None, conversationHistory = []\<rparr>"

text \<open>A verified event that is not about a user.\<close>

definition sessionCreated :: webhook_request where
  "sessionCreated =
     \<lparr>svix_id = Some ''msg_1'', svix_timestamp = Some ''1735689600'', svix_signature = Some ''v1,sig'',
      body_data = \<lparr>cd_id = ''sess_1'', cd_email_addresses = None, cd_first_name = None,
                   cd_last_name = None, cd_image_url = None\<rparr>,
      body_type = ''session.created''\<rparr>"

text \<open>The states in which the loop ends when every call fails in the same way.\<close>

definition afterModelGone :: loop_state where
  "afterModelGone =
     \<lparr>retries = 3, lastError = Some modelGone, currentModelIndex = 2, modelName = ''gemini-pro'',
      calls = 3,
      effects = [GenerateContent ''gemini-2.5-flash'', GenerateContent ''gemini-1.5-flash'',
                 GenerateContent ''gemini-pro'']\<rparr>"

definition afterNetworkDown :: loop_state where
  "afterNetworkDown =
     \<lparr>retries = 1, lastError = Some networkDown, currentModelIndex = 0,
      modelName = ''gemini-2.5-flash'', calls = 3,
      effects = [GenerateContent ''gemini-2.5-flash'', Sleep 1000,
                 GenerateContent ''gemini-2.5-flash'', Sleep 1000,
                 GenerateContent ''gemini-2.5-flash'']\<rparr>"

definition afterServerError :: loop_state where
  "afterServerError =
     \<lparr>retries = 3, lastError = Some serverError, currentModelIndex = 0,
      modelName = ''gemini-2.5-flash'', calls = 1,
      effects = [GenerateContent ''gemini-2.5-flash'']\<rparr>"

text \<open>The payload that reports room \<open>r1\<close> free for the two nights from 1 January.\<close>

definition available0 :: availability where
  "available0 =
     \<lparr>av_roomId = ''r1'', av_hotelName = ''Sea View'', av_checkInDate = JString ''2025-01-01'',
      av_checkOutDate = JString ''2025-01-03'', av_totalPrice = Num 200, av_nights = Num 2\<rparr>"





text \<open>The request for the two nights with the guests given as the string \<open>2\<close>, and its booking.\<close>

definition bookRequest2 :: book_request where
  "bookRequest2 = bookRequest0\<lparr>guests := JString ''2''\<rparr>"

definition booking2 :: booking where
  "booking2 = booking0\<lparr>b_guests := Num 2\<rparr>"

section \<open>Properties of createBookingViaAI\<close>

text \<open>A request that created a Booking document took the one path of the handler that does.\<close>

lemma createBookingViaAI_created:
  assumes "createBookingViaAI env d req = (res, d', t)"
      and "bookings d' = bookings d @ [bk]"
  shows "\<exists>uid usr rm htl.
           userId req = Some uid \<and> users d uid = Some usr \<and>
           Room_findById d (roomId req) = Some rm \<and> r_hotel rm = Some htl \<and>
           bk = \<lparr>b_id = newObjectId env d, b_user = uid, b_room = roomId req, b_hotel = h_id htl,
                 b_guests = guestsOf env (guests req), b_checkInDate = checkInDate req,
                 b_checkOutDate = checkOutDate req,
                 b_totalPrice = num_mul (Num (r_pricePerNight rm))
                    (nightsOf (newDate env (checkInDate req)) (newDate env (checkOutDate req)))\<rparr> \<and>
           d' = d\<lparr>bookings := bookings d @ [bk]\<rparr> \<and>
           res = \<lparr>success = True, message = Some ''Booking created successfully!'',
                  booking = Some \<lparr>d_id = b_id bk, d_bookingId = b_id bk, d_hotelName = h_name htl,
                     d_checkInDate = toDateString env (newDate env (checkInDate req)),
                     d_checkOutDate = toDateString env (newDate env (checkOutDate req)),
                     d_totalPrice = b_totalPrice bk,
                     d_nights = nightsOf (newDate env (checkInDate req)) (newDate env (checkOutDate req))\<rparr>\<rparr>"
  using assms
  unfolding createBookingViaAI_def createBookingViaAI_try_def
  by (auto simp: Let_def split: option.splits if_splits sum.splits bool.splits)

lemma nightsOf_Num:
  "nightsOf (Num ci) (Num co) = Num (of_int \<lceil>(co - ci) / (1000 * 3600 * 24)\<rceil>)"
  by (simp add: nightsOf_def)

text \<open>The handler on the sample data: a stay of two nights, and a stay that overlaps a booking.\<close>

lemma createBookingViaAI_sample:
  "createBookingViaAI (env0 a) db0 bookRequest0 =
     (\<lparr>success = True, message = Some ''Booking created successfully!'',
       booking = Some \<lparr>d_id = ''b1'', d_bookingId = ''b1'', d_hotelName = ''Sea View'',
                        d_checkInDate = ''day'', d_checkOutDate = ''day'',
                        d_totalPrice = Num 200, d_nights = Num 2\<rparr>\<rparr>,
      db0\<lparr>bookings := [booking0]\<rparr>,
      [User_findById ''u1'',
       CheckAvailability (JString ''r1'') (Num 1735689600000) (Num 1735862400000) (Inr True),
       Room_findById_call (JString ''r1''),
       Booking_create booking0,
       SendMail (mailOptions (env0 a) user0 booking0 hotel0 (Num 1735689600000) (Num 1735862400000) (Num 200))
                (Some (Error ''connect ECONNREFUSED 127.0.0.1:587''))])"
  by (simp add: createBookingViaAI_def createBookingViaAI_try_def env0_def db0_def bookRequest0_def
        booking0_def room0_def hotel0_def user0_def newDate0_def nightsOf_def guestsOf_def
        checkAvailability_spec_def Let_def)

lemma createBookingViaAI_overlap:
  "createBookingViaAI (env0 greeting0) db1 bookRequest1 =
     (\<lparr>success = False, message = Some ''Room is not available for the selected dates'',
       booking = None\<rparr>,
      db1,
      [User_findById ''u1'',
       CheckAvailability (JString ''r1'') (Num 1735776000000) (Num 1735948800000) (Inr False)])"
  by (simp add: createBookingViaAI_def createBookingViaAI_try_def env0_def db0_def db1_def
        bookRequest0_def bookRequest1_def booked0_def book_failure_def
        room0_def hotel0_def user0_def newDate0_def
        checkAvailability_spec_def Let_def)


text \<open>
  C2: when the call of \<open>checkAvailability\<close> returns false, \<open>createBookingViaAI\<close> answers
  with \<open>success: false\<close> and the message that the room is not available, creates no
  Booking document and leaves the database as it was.
\<close>

theorem unavailable_room_rejected:
  assumes "createBookingViaAI env d req = (res, d', t)"
      and "CheckAvailability rid ci co (Inr False) \<in> set t"
  shows "success res = False \<and>
         message res = Some ''Room is not available for the selected dates'' \<and>
         booking res = None \<and> d' = d \<and> (\<forall>x\<in>set t. \<not> isBooking_create x)"
  using assms
  unfolding createBookingViaAI_def createBookingViaAI_try_def book_failure_def
  by (auto simp: Let_def split: option.splits if_splits sum.splits bool.splits)

theorem unavailable_room_rejected_witness:
  "CheckAvailability (JString ''r1'') (Num 1735776000000) (Num 1735948800000) (Inr False)
     \<in> set (snd (snd (createBookingViaAI (env0 greeting0) db1 bookRequest1))) \<and>
   fst (createBookingViaAI (env0 greeting0) db1 bookRequest1)
     = \<lparr>success = False, message = Some ''Room is not available for the selected dates'',
        booking = None\<rparr> \<and>
   fst (snd (createBookingViaAI (env0 greeting0) db1 bookRequest1)) = db1"
proof -
  note run = createBookingViaAI_overlap
  have hyp: "CheckAvailability (JString ''r1'') (Num 1735776000000) (Num 1735948800000) (Inr False)
     \<in> set [User_findById ''u1'',
       CheckAvailability (JString ''r1'') (Num 1735776000000) (Num 1735948800000) (Inr False)]"
    by simp
  from unavailable_room_rejected [OF run hyp] show ?thesis
    by (simp add: run)
qed

text \<open>
  C5: when the Booking document has been created and sending the mail throws,
  \<open>createBookingViaAI\<close> still answers with \<open>success: true\<close> and the details of the booking.
\<close>

theorem email_failure_keeps_booking:
  assumes "createBookingViaAI env d req = (res, d', t)"
      and "bookings d' = bookings d @ [bk]"
      and "SendMail ml (Some err) \<in> set t"
  shows "success res = True \<and> message res = Some ''Booking created successfully!'' \<and>
         (\<exists>det. booking res = Some det \<and> d_id det = b_id bk \<and> d_bookingId det = b_id bk \<and>
                d_totalPrice det = b_totalPrice bk)"
  using createBookingViaAI_created [OF assms(1,2)] by auto

theorem email_failure_keeps_booking_witness:
  "bookings (fst (snd (createBookingViaAI (env0 greeting0) db0 bookRequest0)))
     = bookings db0 @ [booking0] \<and>
   SendMail (mailOptions (env0 greeting0) user0 booking0 hotel0
               (Num 1735689600000) (Num 1735862400000) (Num 200))
            (Some (Error ''connect ECONNREFUSED 127.0.0.1:587''))
     \<in> set (snd (snd (createBookingViaAI (env0 greeting0) db0 bookRequest0))) \<and>
   success (fst (createBookingViaAI (env0 greeting0) db0 bookRequest0)) = True"
proof -
  have db: "bookings (db0\<lparr>bookings := [booking0]\<rparr>) = bookings db0 @ [booking0]"
    by (simp add: db0_def)
  have ml: "SendMail (mailOptions (env0 greeting0) user0 booking0 hotel0
               (Num 1735689600000) (Num 1735862400000) (Num 200))
            (Some (Error ''connect ECONNREFUSED 127.0.0.1:587''))
     \<in> set [User_findById ''u1'',
       CheckAvailability (JString ''r1'') (Num 1735689600000) (Num 1735862400000) (Inr True),
       Room_findById_call (JString ''r1''),
       Booking_create booking0,
       SendMail (mailOptions (env0 greeting0) user0 booking0 hotel0 (Num 1735689600000) (Num 1735862400000) (Num 200))
                (Some (Error ''connect ECONNREFUSED 127.0.0.1:587''))]"
    by simp
  from email_failure_keeps_booking [OF createBookingViaAI_sample db ml] db ml
  show ?thesis
    by (simp add: createBookingViaAI_sample)
qed

lemma createBookingViaAI_sample_guests:
  "createBookingViaAI (env0 a) db0 bookRequest2 =
     (\<lparr>success = True, message = Some ''Booking created successfully!'',
       booking = Some \<lparr>d_id = ''b1'', d_bookingId = ''b1'', d_hotelName = ''Sea View'',
                        d_checkInDate = ''day'', d_checkOutDate = ''day'',
                        d_totalPrice = Num 200, d_nights = Num 2\<rparr>\<rparr>,
      db0\<lparr>bookings := [booking2]\<rparr>,
      [User_findById ''u1'',
       CheckAvailability (JString ''r1'') (Num 1735689600000) (Num 1735862400000) (Inr True),
       Room_findById_call (JString ''r1''),
       Booking_create booking2,
       SendMail (mailOptions (env0 a) user0 booking2 hotel0 (Num 1735689600000) (Num 1735862400000) (Num 200))
                (Some (Error ''connect ECONNREFUSED 127.0.0.1:587''))])"
  by (simp add: createBookingViaAI_def createBookingViaAI_try_def env0_def db0_def bookRequest0_def
        bookRequest2_def booking0_def booking2_def room0_def hotel0_def user0_def newDate0_def
        nightsOf_def guestsOf_def checkAvailability_spec_def Let_def)

text \<open>
  C9: the guests of a created booking are \<open>+guests || 1\<close>: 1 when the field is absent, zero
  or not a number other than zero, the numeric value of the field otherwise. Value by
  value: an absent field, \<open>null\<close>, \<open>false\<close> and \<open>true\<close>, \<open>NaN\<close> and 0 give 1 (\<open>true\<close> is the
  number 1); any other Number gives itself; a string, and an array or object through its
  string, gives the number the string converts to, and 1 when that is \<open>NaN\<close> or 0.
\<close>

theorem guests_default:
  assumes "createBookingViaAI env d req = (res, d', t)"
      and "bookings d' = bookings d @ [bk]"
  shows "b_guests bk = (if toNumber env (guests req) = NaN \<or> toNumber env (guests req) = Num 0
                        then Num 1 else toNumber env (guests req)) \<and>
         (guests req = JUndefined \<longrightarrow> b_guests bk = Num 1) \<and>
         (guests req = JNumber (Num 0) \<longrightarrow> b_guests bk = Num 1) \<and>
         (\<forall>n. guests req = JNumber (Num n) \<and> n \<noteq> 0 \<longrightarrow> b_guests bk = Num n) \<and>
         (guests req = JNull \<longrightarrow> b_guests bk = Num 1) \<and>
         (guests req = JBool False \<longrightarrow> b_guests bk = Num 1) \<and>
         (guests req = JBool True \<longrightarrow> b_guests bk = Num 1) \<and>
         (guests req = JNumber NaN \<longrightarrow> b_guests bk = Num 1) \<and>
         (\<forall>s. guests req = JString s \<or> guests req = JObject s \<longrightarrow>
              b_guests bk = (case stringToNumber env s of
                               NaN \<Rightarrow> Num 1
                             | Num n \<Rightarrow> if n = 0 then Num 1 else Num n)) \<and>
         b_guests bk =
           (case guests req of
              JUndefined \<Rightarrow> Num 1
            | JNull \<Rightarrow> Num 1
            | JBool b \<Rightarrow> Num 1
            | JNumber NaN \<Rightarrow> Num 1
            | JNumber (Num n) \<Rightarrow> if n = 0 then Num 1 else Num n
            | JString s \<Rightarrow> (case stringToNumber env s of
                               NaN \<Rightarrow> Num 1
                             | Num n \<Rightarrow> if n = 0 then Num 1 else Num n)
            | JObject s \<Rightarrow> (case stringToNumber env s of
                               NaN \<Rightarrow> Num 1
                             | Num n \<Rightarrow> if n = 0 then Num 1 else Num n))"
proof -
  have g: "guestsOf env g = (if toNumber env g = NaN \<or> toNumber env g = Num 0 then Num 1 else toNumber env g)" for g
    by (cases "toNumber env g") (auto simp: guestsOf_def)
  have v: "guestsOf env g =
           (case g of
              JUndefined \<Rightarrow> Num 1
            | JNull \<Rightarrow> Num 1
            | JBool b \<Rightarrow> Num 1
            | JNumber NaN \<Rightarrow> Num 1
            | JNumber (Num n) \<Rightarrow> if n = 0 then Num 1 else Num n
            | JString s \<Rightarrow> (case stringToNumber env s of
                               NaN \<Rightarrow> Num 1
                             | Num n \<Rightarrow> if n = 0 then Num 1 else Num n)
            | JObject s \<Rightarrow> (case stringToNumber env s of
                               NaN \<Rightarrow> Num 1
                             | Num n \<Rightarrow> if n = 0 then Num 1 else Num n))" for g
    by (simp add: guestsOf_def split: js_value.split number.split)
  from createBookingViaAI_created [OF assms] have bk: "b_guests bk = guestsOf env (guests req)"
    by auto
  have "b_guests bk = (if toNumber env (guests req) = NaN \<or> toNumber env (guests req) = Num 0
                        then Num 1 else toNumber env (guests req))"
    using bk by (simp only: g)
  moreover have c: "b_guests bk =
           (case guests req of
              JUndefined \<Rightarrow> Num 1
            | JNull \<Rightarrow> Num 1
            | JBool b \<Rightarrow> Num 1
            | JNumber NaN \<Rightarrow> Num 1
            | JNumber (Num n) \<Rightarrow> if n = 0 then Num 1 else Num n
            | JString s \<Rightarrow> (case stringToNumber env s of
                               NaN \<Rightarrow> Num 1
                             | Num n \<Rightarrow> if n = 0 then Num 1 else Num n)
            | JObject s \<Rightarrow> (case stringToNumber env s of
                               NaN \<Rightarrow> Num 1
                             | Num n \<Rightarrow> if n = 0 then Num 1 else Num n))"
    using bk by (simp only: v)
  moreover from c have "guests req = JUndefined \<longrightarrow> b_guests bk = Num 1"
    "guests req = JNumber (Num 0) \<longrightarrow> b_guests bk = Num 1"
    "\<forall>n. guests req = JNumber (Num n) \<and> n \<noteq> 0 \<longrightarrow> b_guests bk = Num n"
    "guests req = JNull \<longrightarrow> b_guests bk = Num 1"
    "guests req = JBool False \<longrightarrow> b_guests bk = Num 1"
    "guests req = JBool True \<longrightarrow> b_guests bk = Num 1"
    "guests req = JNumber NaN \<longrightarrow> b_guests bk = Num 1"
    "\<forall>s. guests req = JString s \<or> guests req = JObject s \<longrightarrow>
              b_guests bk = (case stringToNumber env s of
                               NaN \<Rightarrow> Num 1
                             | Num n \<Rightarrow> if n = 0 then Num 1 else Num n)"
    by auto
  ultimately show ?thesis by blast
qed

theorem guests_default_witness:
  "bookings (fst (snd (createBookingViaAI (env0 greeting0) db0 bookRequest0)))
     = bookings db0 @ [booking0] \<and>
   guests bookRequest0 = JUndefined \<and> b_guests booking0 = Num 1 \<and>
   bookings (fst (snd (createBookingViaAI (env0 greeting0) db0 bookRequest2)))
     = bookings db0 @ [booking2] \<and>
   guests bookRequest2 = JString ''2'' \<and> stringToNumber (env0 greeting0) ''2'' = Num 2 \<and>
   b_guests booking2 = Num 2"
proof -
  have db: "bookings (db0\<lparr>bookings := [booking0]\<rparr>) = bookings db0 @ [booking0]"
    "bookings (db0\<lparr>bookings := [booking2]\<rparr>) = bookings db0 @ [booking2]"
    by (simp_all add: db0_def)
  have g: "guests bookRequest0 = JUndefined" "guests bookRequest2 = JString ''2''"
    by (simp_all add: bookRequest0_def bookRequest2_def)
  have n: "stringToNumber (env0 greeting0) ''2'' = Num 2"
    by (simp add: env0_def)
  from guests_default [OF createBookingViaAI_sample [of greeting0] db(1)] g
  have one: "b_guests booking0 = Num 1" by simp
  from guests_default [OF createBookingViaAI_sample_guests [of greeting0] db(2)] g n
  have two: "b_guests booking2 = Num 2" by simp
  from one two g n db show ?thesis
    by (simp add: createBookingViaAI_sample createBookingViaAI_sample_guests)
qed

section \<open>Properties of chatWithAI\<close>

lemma respond_success:
  assumes "respond env d uid a = (Inr res, t)"
  shows "\<exists>aiResponse action nc.
           handleIntent env d uid a = (Inr (aiResponse, action), t) \<and>
           a_needsClarification a = Some nc \<and>
           res = \<lparr>success = True,
                  message = withClarification aiResponse nc,
                  actionData = action, intent = a_intent a\<rparr>"
proof (cases "handleIntent env d uid a")
  case (Pair r t')
  show ?thesis
  proof (cases r)
    case (Inl e)
    with Pair assms show ?thesis by (simp add: respond_def)
  next
    case (Inr p)
    obtain aiResponse action where p: "p = (aiResponse, action)" by (cases p)
    show ?thesis
    proof (cases "a_needsClarification a")
      case None
      with Pair Inr p assms show ?thesis by (simp add: respond_def)
    next
      case (Some nc)
      with Pair Inr p assms show ?thesis by (simp add: respond_def)
    qed
  qed
qed

lemma chatWithAI_action:
  assumes "chatWithAI env d req = (res, d', t)"
      and "actionData res = Some act"
  shows "\<exists>a tx t2. handleIntent env d (userId req) a = (Inr (tx, Some act), t2)"
proof -
  have "\<exists>a t2. respond env d (userId req) a = (Inr res, t2)"
    using assms
    unfolding chatWithAI_def chatWithAI_try_def chatWithAI_catch_def chat_failure_def
    by (auto simp: Let_def split: option.splits if_splits sum.splits prod.splits parse_result.splits)
  then obtain a t2 where "respond env d (userId req) a = (Inr res, t2)"
    by (elim exE)
  from respond_success [OF this] assms(2) show ?thesis
    apply (elim exE conjE)
    apply (intro exI)
    apply simp
    done
qed


lemma handleIntent_available:
  assumes "handleIntent env d uid a = (Inr (tx, Some (availability_check (Some av))), t)"
  shows "\<exists>x rm htl. a_extractedData a = Some x \<and> Room_findById d (x_roomId x) = Some rm \<and>
           r_hotel rm = Some htl \<and>
           av = \<lparr>av_roomId = r_id rm, av_hotelName = h_name htl,
                 av_checkInDate = x_checkInDate x, av_checkOutDate = x_checkOutDate x,
                 av_totalPrice = num_mul (Num (r_pricePerNight rm))
                    (nightsOf (newDate env (x_checkInDate x)) (newDate env (x_checkOutDate x))),
                 av_nights = nightsOf (newDate env (x_checkInDate x)) (newDate env (x_checkOutDate x))\<rparr>"
  using assms
  unfolding handleIntent_def
  by (auto simp: Let_def split: option.splits if_splits sum.splits bool.splits prod.splits)

text \<open>The handler on the sample data: the model asks whether room \<open>r1\<close> is free.\<close>

lemma retryLoop_resolves:
  "retryLoop (env0 a) p (initialLoopState (env0 a))
     = (Inr (Inr ''{}''),
        \<lparr>retries = 3, lastError = None, currentModelIndex = 0, modelName = ''gemini-2.5-flash'',
         calls = 1, effects = [GenerateContent ''gemini-2.5-flash'']\<rparr>)"
  by (simp add: retryLoop.simps initialLoopState_def env0_def opt_or_def fallbackModels_def Let_def)

lemma chatWithAI_available_sample:
  "chatWithAI (env0 (reply0 ''check_availability'' stay0)) db0 chatRequest0 =
     (\<lparr>success = True,
       message = Some (availableText (env0 (reply0 ''check_availability'' stay0)) room0 hotel0
                         (Num 1735689600000) (Num 1735862400000) (Num 2) (Num 200)),
       actionData = Some (availability_check (Some available0)),
       intent = JString ''check_availability''\<rparr>,
      db0,
      [GenerateContent ''gemini-2.5-flash'',
       CheckAvailability (JString ''r1'') (Num 1735689600000) (Num 1735862400000) (Inr True),
       Room_findById_call (JString ''r1'')])"
proof -
  have r: "respond (env0 (reply0 ''check_availability'' stay0)) db0 (Some ''u1'')
             (reply0 ''check_availability'' stay0)
           = (Inr \<lparr>success = True,
       message = Some (availableText (env0 (reply0 ''check_availability'' stay0)) room0 hotel0
                         (Num 1735689600000) (Num 1735862400000) (Num 2) (Num 200)),
       actionData = Some (availability_check (Some available0)),
       intent = JString ''check_availability''\<rparr>,
      [CheckAvailability (JString ''r1'') (Num 1735689600000) (Num 1735862400000) (Inr True),
       Room_findById_call (JString ''r1'')])"
    by (simp add: respond_def handleIntent_def env0_def db0_def reply0_def stay0_def noData_def
          room0_def hotel0_def newDate0_def nightsOf_def checkAvailability_spec_def available0_def
          withClarification_def Let_def)
  have p: "JSON_parse (env0 a) s = Parsed a" for a s
    by (simp add: env0_def)
  show ?thesis
    by (simp add: chatWithAI_def chatWithAI_try_def chatRequest0_def retryLoop_resolves p r)
qed

text \<open>
  C1: a booking that \<open>createBookingViaAI\<close> creates from valid dates stores and returns the
  total price nights times the nightly rate of the room, the nights being the ceiling of
  the difference of the dates in days; the total price that \<open>chatWithAI\<close> reports for an
  available room follows the same formula.
\<close>

theorem totalPrice_nights_times_rate:
  "(createBookingViaAI env d req = (res, d', t) \<and> bookings d' = bookings d @ [bk] \<and>
    newDate env (checkInDate req) = Num ci \<and> newDate env (checkOutDate req) = Num co
    \<longrightarrow> (\<exists>rm det. Room_findById d (roomId req) = Some rm \<and> booking res = Some det \<and>
          b_totalPrice bk = Num (r_pricePerNight rm * of_int \<lceil>(co - ci) / (1000 * 3600 * 24)\<rceil>) \<and>
          d_totalPrice det = Num (r_pricePerNight rm * of_int \<lceil>(co - ci) / (1000 * 3600 * 24)\<rceil>) \<and>
          d_nights det = Num (of_int \<lceil>(co - ci) / (1000 * 3600 * 24)\<rceil>)))
   \<and>
   (chatWithAI env d creq = (cres, cd', ct) \<and> actionData cres = Some (availability_check (Some av)) \<and>
    newDate env (av_checkInDate av) = Num ci' \<and> newDate env (av_checkOutDate av) = Num co'
    \<longrightarrow> (\<exists>key rm. Room_findById d key = Some rm \<and> r_id rm = av_roomId av \<and>
          av_totalPrice av = Num (r_pricePerNight rm * of_int \<lceil>(co' - ci') / (1000 * 3600 * 24)\<rceil>) \<and>
          av_nights av = Num (of_int \<lceil>(co' - ci') / (1000 * 3600 * 24)\<rceil>)))"
proof (intro conjI impI)
  assume h: "createBookingViaAI env d req = (res, d', t) \<and> bookings d' = bookings d @ [bk] \<and>
    newDate env (checkInDate req) = Num ci \<and> newDate env (checkOutDate req) = Num co"
  from createBookingViaAI_created [of env d req res d' t bk] h
  show "\<exists>rm det. Room_findById d (roomId req) = Some rm \<and> booking res = Some det \<and>
          b_totalPrice bk = Num (r_pricePerNight rm * of_int \<lceil>(co - ci) / (1000 * 3600 * 24)\<rceil>) \<and>
          d_totalPrice det = Num (r_pricePerNight rm * of_int \<lceil>(co - ci) / (1000 * 3600 * 24)\<rceil>) \<and>
          d_nights det = Num (of_int \<lceil>(co - ci) / (1000 * 3600 * 24)\<rceil>)"
    by (auto simp: nightsOf_Num)
next
  assume h: "chatWithAI env d creq = (cres, cd', ct) \<and> actionData cres = Some (availability_check (Some av)) \<and>
    newDate env (av_checkInDate av) = Num ci' \<and> newDate env (av_checkOutDate av) = Num co'"
  then obtain a tx t2 where
    "handleIntent env d (userId creq) a = (Inr (tx, Some (availability_check (Some av))), t2)"
    using chatWithAI_action by blast
  from handleIntent_available [OF this]
  have "\<exists>key rm. Room_findById d key = Some rm \<and> r_id rm = av_roomId av \<and>
          av_totalPrice av = num_mul (Num (r_pricePerNight rm))
             (nightsOf (newDate env (av_checkInDate av)) (newDate env (av_checkOutDate av))) \<and>
          av_nights av = nightsOf (newDate env (av_checkInDate av)) (newDate env (av_checkOutDate av))"
    apply (elim exE conjE)
    apply (intro exI conjI)
       apply assumption
      apply simp_all
    done
  with h
  show "\<exists>key rm. Room_findById d key = Some rm \<and> r_id rm = av_roomId av \<and>
          av_totalPrice av = Num (r_pricePerNight rm * of_int \<lceil>(co' - ci') / (1000 * 3600 * 24)\<rceil>) \<and>
          av_nights av = Num (of_int \<lceil>(co' - ci') / (1000 * 3600 * 24)\<rceil>)"
    by (simp add: nightsOf_Num)
qed

theorem totalPrice_nights_times_rate_witness:
  "bookings (fst (snd (createBookingViaAI (env0 greeting0) db0 bookRequest0)))
     = bookings db0 @ [booking0] \<and>
   newDate (env0 greeting0) (checkInDate bookRequest0) = Num 1735689600000 \<and>
   newDate (env0 greeting0) (checkOutDate bookRequest0) = Num 1735862400000 \<and>
   Room_findById db0 (roomId bookRequest0) = Some room0 \<and>
   b_totalPrice booking0 = Num (r_pricePerNight room0 * 2) \<and>
   actionData (fst (chatWithAI (env0 (reply0 ''check_availability'' stay0)) db0 chatRequest0))
     = Some (availability_check (Some available0)) \<and>
   av_totalPrice available0 = Num (r_pricePerNight room0 * 2)"
proof -
  let ?e = "env0 (reply0 ''check_availability'' stay0)"
  have dates: "newDate (env0 a) (JString ''2025-01-01'') = Num 1735689600000"
      "newDate (env0 a) (JString ''2025-01-03'') = Num 1735862400000" for a
    by (simp_all add: env0_def newDate0_def)
  have rm: "rooms db0 ''r1'' = Some room0"
    by (simp add: db0_def)
  have req: "checkInDate bookRequest0 = JString ''2025-01-01''"
    "checkOutDate bookRequest0 = JString ''2025-01-03''" "roomId bookRequest0 = JString ''r1''"
    by (simp_all add: bookRequest0_def)
  have av: "av_checkInDate available0 = JString ''2025-01-01''"
    "av_checkOutDate available0 = JString ''2025-01-03''" "av_totalPrice available0 = Num 200"
    by (simp_all add: available0_def)
  have bk: "b_totalPrice booking0 = Num 200" "r_pricePerNight room0 = 100"
    by (simp_all add: booking0_def room0_def)
  have db: "bookings db0 = []" by (simp add: db0_def)
  note inst = totalPrice_nights_times_rate
      [where env = ?e and d = db0 and req = bookRequest0
         and res = "fst (createBookingViaAI ?e db0 bookRequest0)"
         and d' = "fst (snd (createBookingViaAI ?e db0 bookRequest0))"
         and t = "snd (snd (createBookingViaAI ?e db0 bookRequest0))"
         and bk = booking0 and ci = 1735689600000 and co = 1735862400000
         and creq = chatRequest0
         and cres = "fst (chatWithAI ?e db0 chatRequest0)"
         and cd' = "fst (snd (chatWithAI ?e db0 chatRequest0))"
         and ct = "snd (snd (chatWithAI ?e db0 chatRequest0))"
         and av = available0 and ci' = 1735689600000 and co' = 1735862400000]
  from inst show ?thesis
    by (simp add: createBookingViaAI_sample chatWithAI_available_sample dates rm req av bk db)
qed

text \<open>
  C8: a request without a message, or with an empty one, is answered with
  \<open>success: false\<close> and \<open>Message is required\<close>, and no call goes to the model or to the
  database: the log is empty.
\<close>

theorem message_required:
  assumes "body_message req = None \<or> body_message req = Some []"
  shows "chatWithAI env d req =
           (\<lparr>success = False, message = Some ''Message is required'', actionData = None,
             intent = JUndefined\<rparr>, d, [])"
  using assms by (auto simp: chatWithAI_def chatWithAI_try_def chat_failure_def)

theorem message_required_witness:
  "body_message chatRequest1 = None \<and>
   chatWithAI (envFailing serverError) db0 chatRequest1 =
     (\<lparr>success = False, message = Some ''Message is required'', actionData = None,
       intent = JUndefined\<rparr>, db0, [])"
  using message_required [of chatRequest1 "envFailing serverError" db0]
  by (simp add: chatRequest1_def)

subsection \<open>The retry and fallback loop\<close>

lemma indexOf_less: "indexOf xs x = Some i \<Longrightarrow> i < length xs"
  by (induction xs arbitrary: i) (auto split: if_splits)

lemma initialLoopState_index: "currentModelIndex (initialLoopState env) \<le> 2"
  using indexOf_less [of fallbackModels]
  by (auto simp: initialLoopState_def Let_def fallbackModels_def split: option.splits dest!: indexOf_less)

lemma retryLoop_invariant:
  assumes "retryLoop env prompt s = (r, s')" and "1 \<le> retries s" and "currentModelIndex s \<le> 2"
  shows "1 \<le> retries s' \<and> retries s' \<le> retries s \<and>
         currentModelIndex s \<le> currentModelIndex s' \<and> currentModelIndex s' \<le> 2 \<and>
         calls s' = calls s + 1 + (retries s - retries s') + (currentModelIndex s' - currentModelIndex s) \<and>
         length (filter isGenerateContent (effects s'))
           = length (filter isGenerateContent (effects s)) + (calls s' - calls s) \<and>
         length (filter isSleep (effects s'))
           = length (filter isSleep (effects s)) + (retries s - retries s') \<and>
         (\<forall>x\<in>set (effects s'). x \<in> set (effects s) \<or> x = Sleep 1000 \<or> isGenerateContent x) \<and>
         (if currentModelIndex s' = currentModelIndex s then modelName s' = modelName s
          else modelName s' = fallbackModels ! currentModelIndex s')"
  using assms
proof (induction env prompt s arbitrary: r s' rule: retryLoop.induct)
  case (1 env prompt s)
  show ?case
  proof (cases "generateContent env (calls s) (modelName s) prompt")
    case (Resolves result)
    with "1.prems" show ?thesis
      by (auto simp: retryLoop.simps [of env prompt s] Let_def)
  next
    case (Rejects error)
    show ?thesis
    proof (cases "isModelNotFound error \<and> currentModelIndex s < length fallbackModels - 1")
      case True
      let ?s2 = "s\<lparr>calls := calls s + 1, effects := effects s @ [GenerateContent (modelName s)],
                     lastError := Some error, currentModelIndex := currentModelIndex s + 1,
                     modelName := fallbackModels ! (currentModelIndex s + 1)\<rparr>"
      from True Rejects "1.prems" have eq: "retryLoop env prompt ?s2 = (r, s')"
        by (simp add: retryLoop.simps [of env prompt s] Let_def)
      from True have idx: "currentModelIndex s < 2" by (simp add: fallbackModels_def)
      have "1 \<le> retries ?s2" "currentModelIndex ?s2 \<le> 2"
        using "1.prems" idx by simp_all
      from "1.IH"(1) [OF _ refl Rejects True eq this] "1.prems"
      show ?thesis by (auto split: if_splits)
    next
      case False
      note nofb = False
      show ?thesis
      proof (cases "isNetworkError error \<and> retries s > 1")
        case True
        let ?s1 = "s\<lparr>calls := calls s + 1, effects := effects s @ [GenerateContent (modelName s)]\<rparr>"
        let ?s2 = "?s1\<lparr>lastError := Some error, retries := retries s - 1,
                        effects := effects ?s1 @ [Sleep 1000]\<rparr>"
        from True nofb Rejects "1.prems" have eq: "retryLoop env prompt ?s2 = (r, s')"
          by (auto simp: retryLoop.simps [of env prompt s] Let_def split: if_splits)
        have "1 \<le> retries ?s2" "currentModelIndex ?s2 \<le> 2"
          using "1.prems" True by auto
        from "1.IH"(2) [OF _ refl Rejects nofb True eq this] "1.prems" True
        show ?thesis by (auto split: if_splits)
      next
        case False
        with nofb Rejects "1.prems" show ?thesis
          by (auto simp: retryLoop.simps [of env prompt s] Let_def split: if_splits)
      qed
    qed
  qed
qed

lemma retryLoop_no_retry:
  assumes "retryLoop env prompt s = (r, s')"
      and "\<forall>n m e. generateContent env n m prompt = Rejects e \<longrightarrow> \<not> isNetworkError e"
  shows "retries s' = retries s"
  using assms
proof (induction env prompt s arbitrary: r s' rule: retryLoop.induct)
  case (1 env prompt s)
  show ?case
  proof (cases "retries s > 0")
    case False
    with "1.prems" show ?thesis
      by (auto simp: retryLoop.simps [of env prompt s] split: option.splits)
  next
    case pos: True
    show ?thesis
    proof (cases "generateContent env (calls s) (modelName s) prompt")
      case (Resolves result)
      with "1.prems" pos show ?thesis
        by (auto simp: retryLoop.simps [of env prompt s] Let_def)
    next
      case (Rejects error)
      with "1.prems" have nn: "\<not> isNetworkError error" by blast
      show ?thesis
      proof (cases "isModelNotFound error \<and> currentModelIndex s < length fallbackModels - 1")
        case True
        let ?s2 = "s\<lparr>calls := calls s + 1, effects := effects s @ [GenerateContent (modelName s)],
                       lastError := Some error, currentModelIndex := currentModelIndex s + 1,
                       modelName := fallbackModels ! (currentModelIndex s + 1)\<rparr>"
        from True Rejects "1.prems" pos have eq: "retryLoop env prompt ?s2 = (r, s')"
          by (simp add: retryLoop.simps [of env prompt s] Let_def)
        from "1.IH"(1) [OF pos refl Rejects True eq "1.prems"(2)]
        show ?thesis by simp
      next
        case False
        with nn Rejects "1.prems" pos show ?thesis
          by (auto simp: retryLoop.simps [of env prompt s] Let_def split: if_splits)
      qed
    qed
  qed
qed

lemma retryLoop_no_fallback:
  assumes "retryLoop env prompt s = (r, s')"
      and "\<forall>n m e. generateContent env n m prompt = Rejects e \<longrightarrow> \<not> isModelNotFound e"
  shows "currentModelIndex s' = currentModelIndex s"
  using assms
proof (induction env prompt s arbitrary: r s' rule: retryLoop.induct)
  case (1 env prompt s)
  show ?case
  proof (cases "retries s > 0")
    case False
    with "1.prems" show ?thesis
      by (auto simp: retryLoop.simps [of env prompt s] split: option.splits)
  next
    case pos: True
    show ?thesis
    proof (cases "generateContent env (calls s) (modelName s) prompt")
      case (Resolves result)
      with "1.prems" pos show ?thesis
        by (auto simp: retryLoop.simps [of env prompt s] Let_def)
    next
      case (Rejects error)
      with "1.prems" have nf: "\<not> (isModelNotFound error \<and> currentModelIndex s < length fallbackModels - 1)"
        by blast
      show ?thesis
      proof (cases "isNetworkError error \<and> retries s > 1")
        case True
        let ?s1 = "s\<lparr>calls := calls s + 1, effects := effects s @ [GenerateContent (modelName s)]\<rparr>"
        let ?s2 = "?s1\<lparr>lastError := Some error, retries := retries s - 1,
                        effects := effects ?s1 @ [Sleep 1000]\<rparr>"
        from True nf Rejects "1.prems" pos have eq: "retryLoop env prompt ?s2 = (r, s')"
          by (auto simp: retryLoop.simps [of env prompt s] Let_def split: if_splits)
        from "1.IH"(2) [OF pos refl Rejects nf True eq "1.prems"(2)]
        show ?thesis by simp
      next
        case False
        with nf Rejects "1.prems" pos show ?thesis
          by (auto simp: retryLoop.simps [of env prompt s] Let_def split: if_splits)
      qed
    qed
  qed
qed

text \<open>The loop when every call fails in the same way.\<close>

lemma retryLoop_modelGone:
  "retryLoop (envFailing modelGone) p (initialLoopState (envFailing modelGone))
     = (Inl modelGone, afterModelGone)"
  by (simp add: retryLoop.simps initialLoopState_def envFailing_def env0_def opt_or_def
        fallbackModels_def Let_def isModelNotFound_def isNetworkError_def messageIncludes_def
        modelGone_def Error_def startsWith_def afterModelGone_def)

lemma retryLoop_networkDown:
  "retryLoop (envFailing networkDown) p (initialLoopState (envFailing networkDown))
     = (Inl networkDown, afterNetworkDown)"
  by (simp add: retryLoop.simps initialLoopState_def envFailing_def env0_def opt_or_def
        fallbackModels_def Let_def isModelNotFound_def isNetworkError_def messageIncludes_def
        networkDown_def Error_def startsWith_def afterNetworkDown_def)

lemma retryLoop_serverError:
  "retryLoop (envFailing serverError) p (initialLoopState (envFailing serverError))
     = (Inl serverError, afterServerError)"
  by (simp add: retryLoop.simps initialLoopState_def envFailing_def env0_def opt_or_def
        fallbackModels_def Let_def isModelNotFound_def isNetworkError_def messageIncludes_def
        serverError_def Error_def startsWith_def afterServerError_def)

text \<open>
  C4: the loop around the call of the model returns (it is a total function, by its
  termination proof), after at most five calls of \<open>generateContent\<close>: one, plus at most two
  retries, each after a wait of one second and only after a transport error, plus at most
  two steps down the list of fallback models, only after a model-not-found error. Any other
  error is thrown at once.
\<close>

theorem retryLoop_bounded:
  "(retryLoop env prompt (initialLoopState env) = (r, s) \<longrightarrow>
      1 \<le> calls s \<and> calls s \<le> 5 \<and>
      length (filter isGenerateContent (effects s)) = calls s \<and>
      calls s = 1 + (3 - retries s) + (currentModelIndex s - currentModelIndex (initialLoopState env)) \<and>
      1 \<le> retries s \<and> retries s \<le> 3 \<and>
      length (filter isSleep (effects s)) = 3 - retries s \<and>
      (\<forall>x\<in>set (effects s). x = Sleep 1000 \<or> isGenerateContent x) \<and>
      currentModelIndex (initialLoopState env) \<le> currentModelIndex s \<and> currentModelIndex s \<le> 2 \<and>
      (currentModelIndex s \<noteq> currentModelIndex (initialLoopState env)
         \<longrightarrow> modelName s = fallbackModels ! currentModelIndex s) \<and>
      ((\<forall>n m e. generateContent env n m prompt = Rejects e \<longrightarrow> \<not> isNetworkError e)
         \<longrightarrow> retries s = 3) \<and>
      ((\<forall>n m e. generateContent env n m prompt = Rejects e \<longrightarrow> \<not> isModelNotFound e)
         \<longrightarrow> currentModelIndex s = currentModelIndex (initialLoopState env)))
   \<and>
   (0 < retries st \<and> generateContent env (calls st) (modelName st) prompt = Rejects e \<and>
    \<not> isNetworkError e \<and> \<not> isModelNotFound e
      \<longrightarrow> retryLoop env prompt st
            = (Inl e, st\<lparr>calls := calls st + 1,
                          effects := effects st @ [GenerateContent (modelName st)],
                          lastError := Some e\<rparr>))"
proof (intro conjI impI)
  assume run: "retryLoop env prompt (initialLoopState env) = (r, s)"
  have init: "retries (initialLoopState env) = 3" "calls (initialLoopState env) = 0"
    "effects (initialLoopState env) = []"
    by (simp_all add: initialLoopState_def Let_def)
  have "1 \<le> retries (initialLoopState env)" by (simp add: init)
  note inv = retryLoop_invariant [OF run this initialLoopState_index]
  from inv init show "1 \<le> calls s" by simp
  from inv init show "calls s \<le> 5" by auto
  from inv init show "length (filter isGenerateContent (effects s)) = calls s" by simp
  from inv init show "calls s = 1 + (3 - retries s)
      + (currentModelIndex s - currentModelIndex (initialLoopState env))" by simp
  from inv show "1 \<le> retries s" by simp
  from inv init show "retries s \<le> 3" by simp
  from inv init show "length (filter isSleep (effects s)) = 3 - retries s" by simp
  from inv init show "\<forall>x\<in>set (effects s). x = Sleep 1000 \<or> isGenerateContent x" by simp
  from inv show "currentModelIndex (initialLoopState env) \<le> currentModelIndex s" by simp
  from inv show "currentModelIndex s \<le> 2" by simp
  { assume "currentModelIndex s \<noteq> currentModelIndex (initialLoopState env)"
    with inv show "modelName s = fallbackModels ! currentModelIndex s" by simp }
  { assume "\<forall>n m e. generateContent env n m prompt = Rejects e \<longrightarrow> \<not> isNetworkError e"
    from retryLoop_no_retry [OF run this] init show "retries s = 3" by simp }
  { assume "\<forall>n m e. generateContent env n m prompt = Rejects e \<longrightarrow> \<not> isModelNotFound e"
    from retryLoop_no_fallback [OF run this]
    show "currentModelIndex s = currentModelIndex (initialLoopState env)" . }
next
  assume "0 < retries st \<and> generateContent env (calls st) (modelName st) prompt = Rejects e \<and>
    \<not> isNetworkError e \<and> \<not> isModelNotFound e"
  then show "retryLoop env prompt st
            = (Inl e, st\<lparr>calls := calls st + 1,
                          effects := effects st @ [GenerateContent (modelName st)],
                          lastError := Some e\<rparr>)"
    by (simp add: retryLoop.simps [of env prompt st] Let_def)
qed

theorem retryLoop_bounded_witness:
  "retryLoop (envFailing modelGone) ''hello'' (initialLoopState (envFailing modelGone))
     = (Inl modelGone, afterModelGone) \<and>
   calls afterModelGone = 3 \<and> retries afterModelGone = 3 \<and> currentModelIndex afterModelGone = 2 \<and>
   modelName afterModelGone = fallbackModels ! 2 \<and>
   retryLoop (envFailing networkDown) ''hello'' (initialLoopState (envFailing networkDown))
     = (Inl networkDown, afterNetworkDown) \<and>
   calls afterNetworkDown = 3 \<and> retries afterNetworkDown = 1 \<and>
   length (filter isSleep (effects afterNetworkDown)) = 2 \<and>
   \<not> isNetworkError serverError \<and> \<not> isModelNotFound serverError \<and>
   retryLoop (envFailing serverError) ''hello'' (initialLoopState (envFailing serverError))
     = (Inl serverError, afterServerError)"
proof -
  have idx: "currentModelIndex (initialLoopState (envFailing e)) = 0" for e
    by (simp add: initialLoopState_def envFailing_def env0_def opt_or_def fallbackModels_def)
  have other: "\<not> isNetworkError serverError" "\<not> isModelNotFound serverError"
    by (simp_all add: isNetworkError_def isModelNotFound_def messageIncludes_def serverError_def
          startsWith_def)
  have gone: "\<forall>n m e. generateContent (envFailing modelGone) n m ''hello'' = Rejects e
                \<longrightarrow> \<not> isNetworkError e"
    by (simp add: envFailing_def env0_def isNetworkError_def messageIncludes_def modelGone_def
          Error_def startsWith_def)
  have down: "\<forall>n m e. generateContent (envFailing networkDown) n m ''hello'' = Rejects e
                \<longrightarrow> \<not> isModelNotFound e"
    by (simp add: envFailing_def env0_def isModelNotFound_def messageIncludes_def networkDown_def
          Error_def startsWith_def)
  have first: "0 < retries (initialLoopState (envFailing serverError))"
    "generateContent (envFailing serverError)
       (calls (initialLoopState (envFailing serverError)))
       (modelName (initialLoopState (envFailing serverError))) ''hello'' = Rejects serverError"
    by (simp_all add: initialLoopState_def envFailing_def env0_def Let_def)
  note a = retryLoop_bounded
      [where env = "envFailing modelGone" and prompt = "''hello''" and r = "Inl modelGone"
         and s = afterModelGone and st = "initialLoopState (envFailing modelGone)" and e = modelGone]
  note b = retryLoop_bounded
      [where env = "envFailing networkDown" and prompt = "''hello''" and r = "Inl networkDown"
         and s = afterNetworkDown and st = "initialLoopState (envFailing networkDown)"
         and e = networkDown]
  note c = retryLoop_bounded
      [where env = "envFailing serverError" and prompt = "''hello''" and r = "Inl serverError"
         and s = afterServerError and st = "initialLoopState (envFailing serverError)"
         and e = serverError]
  have "calls afterModelGone = 1 + (3 - retries afterModelGone) + (currentModelIndex afterModelGone - 0)
        \<and> retries afterModelGone = 3
        \<and> modelName afterModelGone = fallbackModels ! currentModelIndex afterModelGone"
    using a gone by (simp add: retryLoop_modelGone idx afterModelGone_def)
  moreover have "length (filter isSleep (effects afterNetworkDown)) = 3 - retries afterNetworkDown
        \<and> currentModelIndex afterNetworkDown = 0 \<and> calls afterNetworkDown \<le> 5"
    using b down by (simp add: retryLoop_networkDown idx)
  moreover have "retryLoop (envFailing serverError) ''hello'' (initialLoopState (envFailing serverError))
     = (Inl serverError,
        (initialLoopState (envFailing serverError))
          \<lparr>calls := calls (initialLoopState (envFailing serverError)) + 1,
           effects := effects (initialLoopState (envFailing serverError))
                      @ [GenerateContent (modelName (initialLoopState (envFailing serverError)))],
           lastError := Some serverError\<rparr>)"
    using c first other by simp
  ultimately show ?thesis
    by (simp add: retryLoop_modelGone retryLoop_networkDown retryLoop_serverError other
          afterModelGone_def afterNetworkDown_def)
qed

subsection \<open>The switch, and what the handler leaves alone\<close>



















subsection \<open>Errors\<close>

text \<open>
  C6: an error thrown in the \<open>try\<close> block of \<open>chatWithAI\<close> is caught: the handler
  answers with \<open>success: false\<close> and a message for the user, which is a specific one when
  the API key is missing, for a network failure, for a model that is not found and for
  the status 401 or 403, and a general apology otherwise. The handler is a total function
  to a response, so no error reaches its caller.
\<close>

theorem chat_errors_caught:
  assumes \<open>chatWithAI_try env d req = (Inl e, d', t)\<close>
  shows \<open>chatWithAI env d req = (chatWithAI_catch env e, d, t) \<and> d' = d \<and>
         success (chatWithAI_catch env e) = False \<and>
         message (chatWithAI_catch env e) =
           Some (if \<not> truthyStr (GEMINI_API_KEY env) then
                   ''AI service is not configured. Please set GEMINI_API_KEY in your environment variables.''
                 else if isNetworkError e then
                   ''Unable to connect to AI service. Please check your internet connection and API key.''
                 else if isModelNotFound e then
                   ''AI model not found. Please check if "''
                     @ opt_or (GEMINI_MODEL_NAME env) ''gemini-2.0-flash-exp''
                     @ ''" is a valid model name.''
                 else if e_status e = Some 401 \<or> e_status e = Some 403 then
                   ''AI service authentication failed. Please check your GEMINI_API_KEY.''
                 else
                   ''I'm sorry, I encountered an error. Please try again or rephrase your question.'')\<close>
proof -
  have \<open>d' = d\<close>
    using assms unfolding chatWithAI_try_def
    by (auto split: option.splits if_splits sum.splits prod.splits parse_result.splits)
  with assms show ?thesis
    by (simp add: chatWithAI_def chatWithAI_catch_def chat_failure_def)
qed

theorem chat_errors_caught_witness:
  "chatWithAI_try (envFailing networkDown) db0 chatRequest0
     = (Inl networkDown, db0, effects afterNetworkDown) \<and>
   chatWithAI (envFailing networkDown) db0 chatRequest0
     = (\<lparr>success = False,
         message = Some ''Unable to connect to AI service. Please check your internet connection and API key.'',
         actionData = None, intent = JUndefined\<rparr>,
        db0, effects afterNetworkDown)"
proof -
  have run: "chatWithAI_try (envFailing networkDown) db0 chatRequest0
     = (Inl networkDown, db0, effects afterNetworkDown)"
    by (simp add: chatWithAI_try_def chatRequest0_def retryLoop_networkDown)
  have key: "truthyStr (GEMINI_API_KEY (envFailing networkDown))"
    by (simp add: envFailing_def env0_def truthyStr_def)
  have net: "isNetworkError networkDown"
    by (simp add: isNetworkError_def messageIncludes_def networkDown_def Error_def startsWith_def)
  from chat_errors_caught [OF run] key net show ?thesis
    by (simp add: run chatWithAI_catch_def chat_failure_def)
qed

section \<open>Properties of clerkWebhooks\<close>

text \<open>
  C10: a verified event of any other type than \<open>user.created\<close>, \<open>user.updated\<close> and
  \<open>user.deleted\<close> leaves the database, and so the users, unchanged, and is answered with
  \<open>success: true\<close> and \<open>Webhook received\<close>.
\<close>

theorem other_events_ignored:
  assumes "verify req = None"
      and "body_type req \<noteq> ''user.created''"
      and "body_type req \<noteq> ''user.updated''"
      and "body_type req \<noteq> ''user.deleted''"
  shows "clerkWebhooks verify env d req =
           (\<lparr>success = True, message = Some ''Webhook received'', status = 200\<rparr>, d, [])"
  using assms by (simp add: clerkWebhooks_def hook_received_def Let_def)

theorem other_events_ignored_witness:
  "body_type sessionCreated = ''session.created'' \<and>
   clerkWebhooks (\<lambda>r. None) (env0 greeting0) db0 sessionCreated =
     (\<lparr>success = True, message = Some ''Webhook received'', status = 200\<rparr>, db0, [])"
  using other_events_ignored [of "\<lambda>r. None" sessionCreated "env0 greeting0" db0]
  by (simp add: sessionCreated_def)

end
